theory Spec2Isabelle
  imports Main
begin

section \<open>The Chroma client: configuration, dispatcher and resource paths\<close>

text \<open>
  A shallow embedding of \<^verbatim>\<open>client.go\<close> and of the error type of the package.
  Go strings and byte slices are \<^typ>\<open>string\<close> (lists of bytes). What the Go
  standard library and the network do (\<^verbatim>\<open>json.Marshal\<close>, \<^verbatim>\<open>json.Unmarshal\<close>,
  the validation of \<^verbatim>\<open>http.NewRequestWithContext\<close>, \<^verbatim>\<open>http.Client.Do\<close>,
  \<^verbatim>\<open>time.Now\<close>) is not code of the package: it is the environment, a record of
  functions that the theorems quantify over. For a result pointer of type \<^verbatim>\<open>*string\<close>
  the decoder is written out, after \<^verbatim>\<open>encoding/json\<close>.
\<close>

subsection \<open>Errors\<close>

type_synonym Time = nat

text \<open>\<^verbatim>\<open>type HTTPError struct { StatusCode int; Message string; Timestamp time.Time }\<close>\<close>

record HTTPError =
  StatusCode :: int
  Message :: string
  Timestamp :: Time

text \<open>
  The values of Go's \<^verbatim>\<open>error\<close> interface that occur: an error of the standard library
  given by its text, a \<^verbatim>\<open>*json.SyntaxError\<close> (its text and offset are not modelled), a
  \<^verbatim>\<open>*json.UnmarshalTypeError\<close> with its \<open>Value\<close> and the name of its \<open>Type\<close>,
  \<^verbatim>\<open>fmt.Errorf("<prefix>: %w", err)\<close>, and a \<^verbatim>\<open>*HTTPError\<close>.
\<close>

datatype error =
    LibError string
  | SyntaxError
  | UnmarshalTypeError string string
  | Errorf string error
  | HTTPErrorPtr HTTPError

text \<open>\<^verbatim>\<open>func (e *HTTPError) Error() string { return e.Message }\<close>\<close>

definition HTTPError_Error :: "HTTPError \<Rightarrow> string" where
  "HTTPError_Error e = Message e"

text \<open>
  The \<^verbatim>\<open>Error()\<close> method of an error value; \<^verbatim>\<open>%w\<close> prints the wrapped error. The text
  of a syntax error is left open.
\<close>

fun Error :: "error \<Rightarrow> string" where
  "Error (LibError s) = s"
| "Error (UnmarshalTypeError v t) = ''json: cannot unmarshal '' @ v @ '' into Go value of type '' @ t"
| "Error (Errorf prefix e) = prefix @ '': '' @ Error e"
| "Error (HTTPErrorPtr e) = HTTPError_Error e"

subsection \<open>Calls that may panic\<close>

text \<open>
  A Go call returns, or panics (a nil pointer or a nil function is used). \<open>go_bind\<close> runs
  a second call on the result of a first one; a panic ends both.
\<close>

datatype 'a go = Return 'a | Panic string

definition go_bind :: "'a go \<Rightarrow> ('a \<Rightarrow> 'b go) \<Rightarrow> 'b go" where
  "go_bind g f = (case g of Return x \<Rightarrow> f x | Panic p \<Rightarrow> Panic p)"

definition nil_dereference :: string where
  "nil_dereference = ''runtime error: invalid memory address or nil pointer dereference''"

subsection \<open>Client configuration\<close>

text \<open>
  \<^verbatim>\<open>http.Client\<close>: the timeout in nanoseconds (\<^verbatim>\<open>time.Duration\<close>) and the name of
  its round tripper (\<open>None\<close> is the nil \<^verbatim>\<open>Transport\<close>, Go's default transport). What
  a client does with a request is the environment's \<open>Do\<close>.
\<close>

type_synonym Duration = int

definition Second :: Duration where
  "Second = 1000000000"

record http_Client =
  Transport :: "string option"
  Timeout :: Duration

text \<open>
  \<^verbatim>\<open>type Client struct { baseURL string; httpClient *http.Client; tenant string; database string }\<close>.
  The pointer \<open>httpClient\<close> may be nil (\<open>None\<close>).
\<close>

record Client =
  baseURL :: string
  httpClient :: "http_Client option"
  tenant :: string
  database :: string

definition DefaultTenant :: string where
  "DefaultTenant = ''default_tenant''"

definition DefaultDatabase :: string where
  "DefaultDatabase = ''default_database''"

text \<open>
  \<^verbatim>\<open>type ClientOption func(*Client)\<close>: a function value, which may be nil (\<open>None\<close>); the
  mutation of the client is returned as the new client.
\<close>

type_synonym ClientOption = "(Client \<Rightarrow> Client) option"

text \<open>\<^verbatim>\<open>strings.HasSuffix\<close> and \<^verbatim>\<open>strings.TrimSuffix\<close>.\<close>

definition HasSuffix :: "string \<Rightarrow> string \<Rightarrow> bool" where
  "HasSuffix s suffix =
     (length s \<ge> length suffix \<and> drop (length s - length suffix) s = suffix)"

definition TrimSuffix :: "string \<Rightarrow> string \<Rightarrow> string" where
  "TrimSuffix s suffix =
     (if HasSuffix s suffix then take (length s - length suffix) s else s)"

definition WithBaseURL :: "string \<Rightarrow> ClientOption" where
  "WithBaseURL baseURL' = Some (\<lambda>c. c\<lparr>baseURL := TrimSuffix baseURL' ''/''\<rparr>)"


definition WithTenant :: "string \<Rightarrow> ClientOption" where
  "WithTenant tenant' = Some (\<lambda>c. c\<lparr>tenant := tenant'\<rparr>)"


text \<open>
  The loop \<^verbatim>\<open>for _, opt := range opts { opt(c) }\<close> of \<open>NewClient\<close>: calling a nil option
  panics.
\<close>

fun applyOptions :: "Client \<Rightarrow> ClientOption list \<Rightarrow> Client go" where
  "applyOptions c [] = Return c"
| "applyOptions c (None # opts) = Panic nil_dereference"
| "applyOptions c (Some opt # opts) = applyOptions (opt c) opts"

text \<open>\<^verbatim>\<open>NewClient(opts ...ClientOption)\<close>: the defaults, then each option in turn.\<close>

definition NewClient :: "ClientOption list \<Rightarrow> Client go" where
  "NewClient opts =
     applyOptions
       \<lparr>baseURL = ''http://localhost:8000'',
        httpClient = Some \<lparr>Transport = None, Timeout = 30 * Second\<rparr>,
        tenant = DefaultTenant,
        database = DefaultDatabase\<rparr>
       opts"

subsection \<open>Requests, responses and the environment\<close>

datatype go_context = Background | WithValue nat go_context

record request =
  Ctx :: go_context
  Method :: string
  URL :: string
  ReqBody :: "string option"
  Header :: "(string \<times> string) list"

text \<open>
  The body of a response is a reader: it yields pieces of data until its end, or until a
  read fails. \<^verbatim>\<open>io.ReadAll\<close> reads until the end or the first error and returns the data
  read so far with that error (\<open>None\<close> at the end).
\<close>

datatype body_stream = EOF | Data string body_stream | ReadErr error

fun ReadAll :: "body_stream \<Rightarrow> string \<times> error option" where
  "ReadAll EOF = ([], None)"
| "ReadAll (Data d rest) = (case ReadAll rest of (bs, e) \<Rightarrow> (d @ bs, e))"
| "ReadAll (ReadErr e) = ([], Some e)"

record response =
  resp_StatusCode :: int
  resp_Body :: body_stream

text \<open>
  The environment of a call. \<open>'b\<close> is the type of the request payload and \<open>'r\<close> the type
  of the value behind the result pointer.
  \<^item> \<open>Marshal\<close> is \<^verbatim>\<open>json.Marshal\<close>;
  \<^item> \<open>NewRequestCheck\<close> is the validation of \<^verbatim>\<open>http.NewRequestWithContext\<close> (method
    token, URL syntax, context), \<open>Some\<close> its error;
  \<^item> \<open>Do\<close> is \<^verbatim>\<open>(*http.Client).Do\<close>: the network, the server, cancellation and timeout;
  \<^item> \<open>RoundTrips\<close> is the number of round trips that the transport makes during that
    call of \<open>Do\<close>: one for each request that the HTTP client sends, so more than one when
    it follows a redirect;
  \<^item> \<open>Now\<close> is the reading of \<^verbatim>\<open>time.Now()\<close>;
  \<^item> \<open>Unmarshal\<close> is \<^verbatim>\<open>json.Unmarshal(data, v)\<close>: from the bytes and the value behind
    \<open>v\<close>, the value behind \<open>v\<close> afterwards and the error returned.
\<close>

record ('b, 'r) env =
  Marshal :: "'b \<Rightarrow> error + string"
  NewRequestCheck :: "go_context \<Rightarrow> string \<Rightarrow> string \<Rightarrow> error option"
  Do :: "http_Client \<Rightarrow> request \<Rightarrow> error + response"
  RoundTrips :: "http_Client \<Rightarrow> request \<Rightarrow> nat"
  Now :: Time
  Unmarshal :: "string \<Rightarrow> 'r \<Rightarrow> 'r \<times> error option"

definition NewRequestWithContext ::
  "('b, 'r) env \<Rightarrow> go_context \<Rightarrow> string \<Rightarrow> string \<Rightarrow> string option \<Rightarrow> error + request" where
  "NewRequestWithContext env ctx method url body =
     (case NewRequestCheck env ctx method url of
        Some e \<Rightarrow> Inl e
      | None \<Rightarrow> Inr \<lparr>Ctx = ctx, Method = method, URL = url, ReqBody = body, Header = []\<rparr>)"

text \<open>\<^verbatim>\<open>req.Header.Set(key, value)\<close> replaces the values of the key.\<close>

definition Header_Set :: "request \<Rightarrow> string \<Rightarrow> string \<Rightarrow> request" where
  "Header_Set req key v =
     req\<lparr>Header := (key, v) # filter (\<lambda>kv. fst kv \<noteq> key) (Header req)\<rparr>"

subsection \<open>The dispatcher\<close>

text \<open>
  What a call of \<open>doRequest\<close> leaves behind: the error returned (\<open>None\<close> is nil), the
  value behind the result pointer (\<open>None\<close> when the pointer is nil), and the requests
  handed to \<^verbatim>\<open>c.httpClient.Do\<close>, in order.
\<close>

record 'r outcome =
  err :: "error option"
  slot :: "'r option"
  sent :: "request list"

text \<open>Lines 74 to 81 of \<^verbatim>\<open>client.go\<close>: the body reader, or the error of \<^verbatim>\<open>json.Marshal\<close>.\<close>

definition marshal_body :: "('b, 'r) env \<Rightarrow> 'b option \<Rightarrow> error + string option" where
  "marshal_body env body =
     (case body of
        None \<Rightarrow> Inr None
      | Some b \<Rightarrow>
          (case Marshal env b of
             Inl e \<Rightarrow> Inl e
           | Inr jsonData \<Rightarrow> Inr (Some jsonData)))"

text \<open>Lines 88 to 90: the content type is set when a body was given.\<close>

definition set_content_type :: "'b option \<Rightarrow> request \<Rightarrow> request" where
  "set_content_type body req =
     (case body of
        None \<Rightarrow> req
      | Some _ \<Rightarrow> Header_Set req ''Content-Type'' ''application/json'')"

text \<open>Lines 103 to 117: the classification of a response whose body was read.\<close>

definition classify ::
  "('b, 'r) env \<Rightarrow> request \<Rightarrow> int \<Rightarrow> string \<Rightarrow> 'r option \<Rightarrow> 'r outcome" where
  "classify env req status respBody result =
     (if status < 200 \<or> status \<ge> 300 then
        \<lparr>err = Some (HTTPErrorPtr
                 \<lparr>StatusCode = status, Message = respBody, Timestamp = Now env\<rparr>),
         slot = result, sent = [req]\<rparr>
      else
        (case result of
           None \<Rightarrow> \<lparr>err = None, slot = result, sent = [req]\<rparr>
         | Some r \<Rightarrow>
             if length respBody > 0 then
               (case Unmarshal env respBody r of
                  (r', Some e) \<Rightarrow>
                    \<lparr>err = Some (Errorf ''failed to unmarshal response'' e),
                     slot = Some r', sent = [req]\<rparr>
                | (r', None) \<Rightarrow> \<lparr>err = None, slot = Some r', sent = [req]\<rparr>)
             else \<lparr>err = None, slot = result, sent = [req]\<rparr>))"

definition doRequest ::
  "('b, 'r) env \<Rightarrow> Client \<Rightarrow> go_context \<Rightarrow> string \<Rightarrow> string \<Rightarrow> 'b option \<Rightarrow> 'r option
     \<Rightarrow> 'r outcome go" where
  "doRequest env c ctx method path body result =
     (case marshal_body env body of
        Inl e \<Rightarrow>
          Return \<lparr>err = Some (Errorf ''failed to marshal request body'' e),
                  slot = result, sent = []\<rparr>
      | Inr bodyReader \<Rightarrow>
          (case NewRequestWithContext env ctx method (baseURL c @ path) bodyReader of
             Inl e \<Rightarrow>
               Return \<lparr>err = Some (Errorf ''failed to create request'' e),
                       slot = result, sent = []\<rparr>
           | Inr req0 \<Rightarrow>
               (let req = set_content_type body req0 in
                case httpClient c of
                  None \<Rightarrow> Panic nil_dereference
                | Some hc \<Rightarrow>
                    (case Do env hc req of
                       Inl e \<Rightarrow>
                         Return \<lparr>err = Some (Errorf ''failed to perform request'' e),
                                 slot = result, sent = [req]\<rparr>
                     | Inr resp \<Rightarrow>
                         (case ReadAll (resp_Body resp) of
                            (respBody, Some e) \<Rightarrow>
                              Return \<lparr>err = Some (Errorf ''failed to read response body'' e),
                                      slot = result, sent = [req]\<rparr>
                          | (respBody, None) \<Rightarrow>
                              Return (classify env req (resp_StatusCode resp)
                                        respBody result))))))"

text \<open>
  The number of calls of \<^verbatim>\<open>c.httpClient.Do\<close> that a call of \<open>doRequest\<close> makes (a call
  that panics does so before \<open>Do\<close> is reached), and the number of round trips that the
  transport makes during them.
\<close>

definition Do_calls :: "'r outcome go \<Rightarrow> nat" where
  "Do_calls g = (case g of Return out \<Rightarrow> length (sent out) | Panic _ \<Rightarrow> 0)"

definition transport_round_trips :: "('b, 'r) env \<Rightarrow> Client \<Rightarrow> 'r outcome go \<Rightarrow> nat" where
  "transport_round_trips env c g =
     (case g of
        Panic _ \<Rightarrow> 0
      | Return out \<Rightarrow>
          (case httpClient c of
             None \<Rightarrow> 0
           | Some hc \<Rightarrow> sum_list (map (RoundTrips env hc) (sent out))))"

subsection \<open>Escaping of path segments\<close>

text \<open>
  \<^verbatim>\<open>url.QueryEscape\<close> of Go's \<^verbatim>\<open>net/url\<close>, as documented: letters, digits and
  \<^verbatim>\<open>-_.~\<close> stay, a space becomes \<^verbatim>\<open>+\<close>, every other byte becomes \<^verbatim>\<open>%XX\<close> in
  upper-case hexadecimal.
\<close>

definition upperhex :: string where
  "upperhex = ''0123456789ABCDEF''"

definition shouldEscape :: "char \<Rightarrow> bool" where
  "shouldEscape c =
     (let n = (of_char c :: nat) in
      if (97 \<le> n \<and> n \<le> 122) \<or> (65 \<le> n \<and> n \<le> 90) \<or> (48 \<le> n \<and> n \<le> 57) then False
      else if c = CHR ''-'' \<or> c = CHR ''_'' \<or> c = CHR ''.'' \<or> c = CHR ''~'' then False
      else True)"

definition escape_byte :: "char \<Rightarrow> string" where
  "escape_byte c =
     (if c = CHR '' '' then ''+''
      else if shouldEscape c then
        [CHR ''%'', upperhex ! ((of_char c :: nat) div 16), upperhex ! ((of_char c :: nat) mod 16)]
      else [c])"

definition QueryEscape :: "string \<Rightarrow> string" where
  "QueryEscape s = concat (map escape_byte s)"

subsection \<open>Resource paths and operations\<close>

definition MethodGet :: string where "MethodGet = ''GET''"
definition MethodPost :: string where "MethodPost = ''POST''"
definition MethodDelete :: string where "MethodDelete = ''DELETE''"

text \<open>
  For each operation, \<open>X_path\<close> is the value of the local variable \<^verbatim>\<open>path\<close> of \<open>X\<close>
  (\<^verbatim>\<open>fmt.Sprintf\<close> with \<^verbatim>\<open>%s\<close> is concatenation). A variadic \<^verbatim>\<open>tenant ...string\<close>
  is a list.
\<close>

definition GetTenant_path :: "string \<Rightarrow> string" where
  "GetTenant_path name = ''/api/v2/tenants/'' @ name"

definition CreateDatabase_path :: "Client \<Rightarrow> string list \<Rightarrow> string" where
  "CreateDatabase_path c tenant' =
     (let tenantName = (case tenant' of [] \<Rightarrow> tenant c | t # _ \<Rightarrow> t)
      in ''/api/v2/tenants/'' @ QueryEscape tenantName @ ''/databases'')"

definition GetDatabase_path :: "Client \<Rightarrow> string \<Rightarrow> string list \<Rightarrow> string" where
  "GetDatabase_path c name tenant' =
     (let tenantName = (case tenant' of [] \<Rightarrow> tenant c | t # _ \<Rightarrow> t)
      in ''/api/v2/tenants/'' @ QueryEscape tenantName @ ''/databases/'' @ name)"

definition ListCollections_path :: "Client \<Rightarrow> string \<Rightarrow> string \<Rightarrow> string" where
  "ListCollections_path c tenant' database' =
     (let tenant1 = (if tenant' = [] then tenant c else tenant');
          database1 = (if database' = [] then database c else database')
      in ''/api/v2/tenants/'' @ QueryEscape tenant1 @ ''/databases/'' @ QueryEscape database1
           @ ''/collections'')"

definition CountCollections_path :: "Client \<Rightarrow> string \<Rightarrow> string \<Rightarrow> string" where
  "CountCollections_path c tenant' database' =
     (let tenant1 = (if tenant' = [] then tenant c else tenant');
          database1 = (if database' = [] then database c else database')
      in ''/api/v2/tenants/'' @ QueryEscape tenant1 @ ''/databases/'' @ QueryEscape database1
           @ ''/collections_count'')"

definition CreateCollection_path :: "Client \<Rightarrow> string \<Rightarrow> string \<Rightarrow> string" where
  "CreateCollection_path c tenant' database' =
     (let tenant1 = (if tenant' = [] then tenant c else tenant');
          database1 = (if database' = [] then database c else database')
      in ''/api/v2/tenants/'' @ QueryEscape tenant1 @ ''/databases/'' @ QueryEscape database1
           @ ''/collections'')"

definition GetCollection_path :: "Client \<Rightarrow> string \<Rightarrow> string \<Rightarrow> string \<Rightarrow> string" where
  "GetCollection_path c name tenant' database' =
     (let tenant1 = (if tenant' = [] then tenant c else tenant');
          database1 = (if database' = [] then database c else database')
      in ''/api/v2/tenants/'' @ QueryEscape tenant1 @ ''/databases/'' @ QueryEscape database1
           @ ''/collections/'' @ name)"

definition DeleteCollection_path :: "Client \<Rightarrow> string \<Rightarrow> string \<Rightarrow> string \<Rightarrow> string" where
  "DeleteCollection_path c name tenant' database' =
     (let tenant1 = (if tenant' = [] then tenant c else tenant');
          database1 = (if database' = [] then database c else database')
      in ''/api/v2/tenants/'' @ QueryEscape tenant1 @ ''/databases/'' @ QueryEscape database1
           @ ''/collections/'' @ name)"

definition UpdateCollection_path :: "string \<Rightarrow> string" where
  "UpdateCollection_path collectionID = ''/api/v2/collections/'' @ collectionID"

definition Add_path :: "string \<Rightarrow> string" where
  "Add_path collectionID = ''/api/v2/collections/'' @ collectionID @ ''/add''"

definition Update_path :: "string \<Rightarrow> string" where
  "Update_path collectionID = ''/api/v2/collections/'' @ collectionID @ ''/update''"

definition Upsert_path :: "string \<Rightarrow> string" where
  "Upsert_path collectionID = ''/api/v2/collections/'' @ collectionID @ ''/upsert''"

definition Get_path :: "string \<Rightarrow> string" where
  "Get_path collectionID = ''/api/v2/collections/'' @ collectionID @ ''/get''"

definition Delete_path :: "string \<Rightarrow> string" where
  "Delete_path collectionID = ''/api/v2/collections/'' @ collectionID @ ''/delete''"

definition Count_path :: "string \<Rightarrow> string" where
  "Count_path collectionID = ''/api/v2/collections/'' @ collectionID @ ''/count''"

definition Query_path :: "string \<Rightarrow> string" where
  "Query_path collectionID = ''/api/v2/collections/'' @ collectionID @ ''/query''"

text \<open>
  The operations whose result variable has a simple zero value. Each returns what
  \<open>doRequest\<close> leaves behind: \<open>slot\<close> is the result variable that the operation returns
  beside \<open>err\<close>.
\<close>

definition Version :: "('b, string) env \<Rightarrow> Client \<Rightarrow> go_context \<Rightarrow> string outcome go" where
  "Version env c ctx = doRequest env c ctx MethodGet ''/api/v2/version'' None (Some [])"

definition ListCollections ::
  "('b, 'col list) env \<Rightarrow> Client \<Rightarrow> go_context \<Rightarrow> string \<Rightarrow> string \<Rightarrow> 'col list outcome go" where
  "ListCollections env c ctx tenant' database' =
     doRequest env c ctx MethodGet (ListCollections_path c tenant' database') None (Some [])"

definition DeleteCollection ::
  "('b, 'r) env \<Rightarrow> Client \<Rightarrow> go_context \<Rightarrow> string \<Rightarrow> string \<Rightarrow> string \<Rightarrow> 'r outcome go" where
  "DeleteCollection env c ctx name tenant' database' =
     doRequest env c ctx MethodDelete (DeleteCollection_path c name tenant' database') None None"

definition Add :: "('b, 'r) env \<Rightarrow> Client \<Rightarrow> go_context \<Rightarrow> string \<Rightarrow> 'b \<Rightarrow> 'r outcome go" where
  "Add env c ctx collectionID req =
     doRequest env c ctx MethodPost (Add_path collectionID) (Some req) None"

subsection \<open>Reading a path back\<close>

text \<open>
  The reading of a path by a URL parser, in the words of the specification: the path is
  cut at each \<^verbatim>\<open>/\<close> and each piece is percent-decoded (\<^verbatim>\<open>%XX\<close> is one byte; in a
  path a \<^verbatim>\<open>+\<close> is a plus sign). \<open>None\<close> is a malformed escape.
\<close>

fun split_slash :: "string \<Rightarrow> string list" where
  "split_slash [] = [[]]"
| "split_slash (c # cs) =
     (if c = CHR ''/'' then [] # split_slash cs
      else (case split_slash cs of
              [] \<Rightarrow> [[c]]
            | seg # segs \<Rightarrow> (c # seg) # segs))"

definition unhex :: "char \<Rightarrow> nat option" where
  "unhex c =
     (let n = (of_char c :: nat) in
      if 48 \<le> n \<and> n \<le> 57 then Some (n - 48)
      else if 97 \<le> n \<and> n \<le> 102 then Some (n - 97 + 10)
      else if 65 \<le> n \<and> n \<le> 70 then Some (n - 65 + 10)
      else None)"

fun PathUnescape :: "string \<Rightarrow> string option" where
  "PathUnescape [] = Some []"
| "PathUnescape (c # cs) =
     (if c = CHR ''%'' then
        (case cs of
           h1 # h2 # rest \<Rightarrow>
             (case (unhex h1, unhex h2, PathUnescape rest) of
                (Some a, Some b, Some t) \<Rightarrow> Some (char_of (16 * a + b) # t)
              | _ \<Rightarrow> None)
         | _ \<Rightarrow> None)
      else map_option ((#) c) (PathUnescape cs))"

definition path_segments :: "string \<Rightarrow> string option list" where
  "path_segments p = map PathUnescape (split_slash p)"

subsection \<open>Decoding JSON into a string\<close>

text \<open>
  \<^verbatim>\<open>json.Unmarshal(data, v)\<close> for \<open>v\<close> of type \<^verbatim>\<open>*string\<close>, after \<^verbatim>\<open>encoding/json\<close>:
  \<^verbatim>\<open>checkValid\<close> runs the scanner of \<^verbatim>\<open>scanner.go\<close> over all of the data, then the
  value is stored according to its first byte. The scanner is a state (\<open>step\<close>), the flag
  \<open>endTop\<close> and the stack \<open>parseState\<close>, whose top is the head of the list; an error is the
  state \<open>stateError\<close>, which no byte leaves.
\<close>

definition byte :: "char \<Rightarrow> nat" where
  "byte c = of_char c"

definition isSpace :: "char \<Rightarrow> bool" where
  "isSpace c = (c = CHR '' '' \<or> c = CHR 0x09 \<or> c = CHR 0x0D \<or> c = CHR 0x0A)"

definition isDigit :: "char \<Rightarrow> bool" where
  "isDigit c = (48 \<le> byte c \<and> byte c \<le> 57)"

definition isDigit19 :: "char \<Rightarrow> bool" where
  "isDigit19 c = (49 \<le> byte c \<and> byte c \<le> 57)"

definition isHex :: "char \<Rightarrow> bool" where
  "isHex c = ((48 \<le> byte c \<and> byte c \<le> 57) \<or> (97 \<le> byte c \<and> byte c \<le> 102)
              \<or> (65 \<le> byte c \<and> byte c \<le> 70))"

datatype parse_state = parseObjectKey | parseObjectValue | parseArrayValue

datatype scan_step =
    stateBeginValue | stateBeginValueOrEmpty | stateBeginStringOrEmpty | stateBeginString
  | stateEndValue | stateEndTop
  | stateInString | stateInStringEsc | stateInStringEscU | stateInStringEscU1
  | stateInStringEscU12 | stateInStringEscU123
  | stateNeg | state1 | state0 | stateDot | stateDot0 | stateE | stateESign | stateE0
  | stateT | stateTr | stateTru | stateF | stateFa | stateFal | stateFals
  | stateN | stateNu | stateNul
  | stateError

record scanner =
  step :: scan_step
  endTop :: bool
  parseState :: "parse_state list"

definition maxNestingDepth :: nat where
  "maxNestingDepth = 10000"

definition scan_reset :: scanner where
  "scan_reset = \<lparr>step = stateBeginValue, endTop = False, parseState = []\<rparr>"

definition scan_error :: "scanner \<Rightarrow> scanner" where
  "scan_error s = s\<lparr>step := stateError\<rparr>"

definition pushParseState :: "scanner \<Rightarrow> parse_state \<Rightarrow> scanner" where
  "pushParseState s newParseState =
     (let s' = s\<lparr>parseState := newParseState # parseState s\<rparr>
      in if length (parseState s') \<le> maxNestingDepth then s' else scan_error s')"

definition popParseState :: "scanner \<Rightarrow> scanner" where
  "popParseState s =
     (let rest = tl (parseState s)
      in if rest = [] then s\<lparr>parseState := rest, step := stateEndTop, endTop := True\<rparr>
         else s\<lparr>parseState := rest, step := stateEndValue\<rparr>)"

text \<open>
  The step functions that other step functions call. \<open>stateEndTop\<close> records the error
  of a byte that is not a space; the scanner reports it at the next byte or at the end.
\<close>

definition do_stateEndTop :: "scanner \<Rightarrow> char \<Rightarrow> scanner" where
  "do_stateEndTop s c = (if \<not> isSpace c then scan_error s else s)"

definition do_stateEndValue :: "scanner \<Rightarrow> char \<Rightarrow> scanner" where
  "do_stateEndValue s c =
     (case parseState s of
        [] \<Rightarrow> do_stateEndTop (s\<lparr>step := stateEndTop, endTop := True\<rparr>) c
      | ps # rest \<Rightarrow>
          if isSpace c then s\<lparr>step := stateEndValue\<rparr>
          else (case ps of
                  parseObjectKey \<Rightarrow>
                    if c = CHR '':'' then
                      s\<lparr>parseState := parseObjectValue # rest, step := stateBeginValue\<rparr>
                    else scan_error s
                | parseObjectValue \<Rightarrow>
                    if c = CHR '','' then
                      s\<lparr>parseState := parseObjectKey # rest, step := stateBeginString\<rparr>
                    else if c = CHR ''}'' then popParseState s
                    else scan_error s
                | parseArrayValue \<Rightarrow>
                    if c = CHR '','' then s\<lparr>step := stateBeginValue\<rparr>
                    else if c = CHR '']'' then popParseState s
                    else scan_error s))"

definition do_stateBeginValue :: "scanner \<Rightarrow> char \<Rightarrow> scanner" where
  "do_stateBeginValue s c =
     (if isSpace c then s
      else if c = CHR ''{'' then
        pushParseState (s\<lparr>step := stateBeginStringOrEmpty\<rparr>) parseObjectKey
      else if c = CHR ''['' then
        pushParseState (s\<lparr>step := stateBeginValueOrEmpty\<rparr>) parseArrayValue
      else if c = CHR 0x22 then s\<lparr>step := stateInString\<rparr>
      else if c = CHR ''-'' then s\<lparr>step := stateNeg\<rparr>
      else if c = CHR ''0'' then s\<lparr>step := state0\<rparr>
      else if c = CHR ''t'' then s\<lparr>step := stateT\<rparr>
      else if c = CHR ''f'' then s\<lparr>step := stateF\<rparr>
      else if c = CHR ''n'' then s\<lparr>step := stateN\<rparr>
      else if isDigit19 c then s\<lparr>step := state1\<rparr>
      else scan_error s)"

definition do_stateBeginString :: "scanner \<Rightarrow> char \<Rightarrow> scanner" where
  "do_stateBeginString s c =
     (if isSpace c then s
      else if c = CHR 0x22 then s\<lparr>step := stateInString\<rparr>
      else scan_error s)"

definition do_state0 :: "scanner \<Rightarrow> char \<Rightarrow> scanner" where
  "do_state0 s c =
     (if c = CHR ''.'' then s\<lparr>step := stateDot\<rparr>
      else if c = CHR ''e'' \<or> c = CHR ''E'' then s\<lparr>step := stateE\<rparr>
      else do_stateEndValue s c)"

definition do_stateESign :: "scanner \<Rightarrow> char \<Rightarrow> scanner" where
  "do_stateESign s c = (if isDigit c then s\<lparr>step := stateE0\<rparr> else scan_error s)"

text \<open>The states inside \<^verbatim>\<open>true\<close>, \<^verbatim>\<open>false\<close> and \<^verbatim>\<open>null\<close> expect one byte each.\<close>

definition expect :: "scanner \<Rightarrow> char \<Rightarrow> char \<Rightarrow> scan_step \<Rightarrow> scanner" where
  "expect s c wanted next = (if c = wanted then s\<lparr>step := next\<rparr> else scan_error s)"

text \<open>\<^verbatim>\<open>s.step(s, c)\<close>: one byte.\<close>

definition scan_byte :: "scanner \<Rightarrow> char \<Rightarrow> scanner" where
  "scan_byte s c =
     (case step s of
        stateBeginValue \<Rightarrow> do_stateBeginValue s c
      | stateBeginValueOrEmpty \<Rightarrow>
          if isSpace c then s
          else if c = CHR '']'' then do_stateEndValue s c
          else do_stateBeginValue s c
      | stateBeginStringOrEmpty \<Rightarrow>
          if isSpace c then s
          else if c = CHR ''}'' then
            do_stateEndValue (s\<lparr>parseState := parseObjectValue # tl (parseState s)\<rparr>) c
          else do_stateBeginString s c
      | stateBeginString \<Rightarrow> do_stateBeginString s c
      | stateEndValue \<Rightarrow> do_stateEndValue s c
      | stateEndTop \<Rightarrow> do_stateEndTop s c
      | stateInString \<Rightarrow>
          if c = CHR 0x22 then s\<lparr>step := stateEndValue\<rparr>
          else if c = CHR 0x5C then s\<lparr>step := stateInStringEsc\<rparr>
          else if byte c < 32 then scan_error s
          else s
      | stateInStringEsc \<Rightarrow>
          if c = CHR ''b'' \<or> c = CHR ''f'' \<or> c = CHR ''n'' \<or> c = CHR ''r'' \<or> c = CHR ''t''
             \<or> c = CHR 0x5C \<or> c = CHR ''/'' \<or> c = CHR 0x22
          then s\<lparr>step := stateInString\<rparr>
          else if c = CHR ''u'' then s\<lparr>step := stateInStringEscU\<rparr>
          else scan_error s
      | stateInStringEscU \<Rightarrow>
          if isHex c then s\<lparr>step := stateInStringEscU1\<rparr> else scan_error s
      | stateInStringEscU1 \<Rightarrow>
          if isHex c then s\<lparr>step := stateInStringEscU12\<rparr> else scan_error s
      | stateInStringEscU12 \<Rightarrow>
          if isHex c then s\<lparr>step := stateInStringEscU123\<rparr> else scan_error s
      | stateInStringEscU123 \<Rightarrow>
          if isHex c then s\<lparr>step := stateInString\<rparr> else scan_error s
      | stateNeg \<Rightarrow>
          if c = CHR ''0'' then s\<lparr>step := state0\<rparr>
          else if isDigit19 c then s\<lparr>step := state1\<rparr>
          else scan_error s
      | state1 \<Rightarrow> if isDigit c then s\<lparr>step := state1\<rparr> else do_state0 s c
      | state0 \<Rightarrow> do_state0 s c
      | stateDot \<Rightarrow> if isDigit c then s\<lparr>step := stateDot0\<rparr> else scan_error s
      | stateDot0 \<Rightarrow>
          if isDigit c then s
          else if c = CHR ''e'' \<or> c = CHR ''E'' then s\<lparr>step := stateE\<rparr>
          else do_stateEndValue s c
      | stateE \<Rightarrow>
          if c = CHR ''+'' \<or> c = CHR ''-'' then s\<lparr>step := stateESign\<rparr>
          else do_stateESign s c
      | stateESign \<Rightarrow> do_stateESign s c
      | stateE0 \<Rightarrow> if isDigit c then s else do_stateEndValue s c
      | stateT \<Rightarrow> expect s c (CHR ''r'') stateTr
      | stateTr \<Rightarrow> expect s c (CHR ''u'') stateTru
      | stateTru \<Rightarrow> expect s c (CHR ''e'') stateEndValue
      | stateF \<Rightarrow> expect s c (CHR ''a'') stateFa
      | stateFa \<Rightarrow> expect s c (CHR ''l'') stateFal
      | stateFal \<Rightarrow> expect s c (CHR ''s'') stateFals
      | stateFals \<Rightarrow> expect s c (CHR ''e'') stateEndValue
      | stateN \<Rightarrow> expect s c (CHR ''u'') stateNu
      | stateNu \<Rightarrow> expect s c (CHR ''l'') stateNul
      | stateNul \<Rightarrow> expect s c (CHR ''l'') stateEndValue
      | stateError \<Rightarrow> s)"

text \<open>\<^verbatim>\<open>s.eof()\<close> and \<^verbatim>\<open>checkValid\<close>: \<open>True\<close> when the data is one JSON value.\<close>

definition scan_eof :: "scanner \<Rightarrow> bool" where
  "scan_eof s =
     (if step s = stateError then False
      else if endTop s then True
      else endTop (scan_byte s (CHR '' '')))"

definition checkValid :: "string \<Rightarrow> bool" where
  "checkValid data = scan_eof (foldl scan_byte scan_reset data)"

text \<open>
  \<^verbatim>\<open>utf8.DecodeRune\<close>: the size of the well-formed encoding at the head of the bytes, 0
  when there is none (Go's \<^verbatim>\<open>RuneError\<close> of size 1). \<^verbatim>\<open>utf8.EncodeRune\<close>: the encoding
  of a rune, the replacement character for a surrogate or a rune beyond the last one.
\<close>

definition inRange :: "char \<Rightarrow> nat \<Rightarrow> nat \<Rightarrow> bool" where
  "inRange b lo hi = (lo \<le> byte b \<and> byte b \<le> hi)"

definition utf8_size :: "string \<Rightarrow> nat" where
  "utf8_size p =
     (case p of
        [] \<Rightarrow> 0
      | p0 # rest \<Rightarrow>
          let x = byte p0 in
          if x < 128 then 1
          else if x < 194 then 0
          else if x \<le> 223 then
            (case rest of
               b1 # _ \<Rightarrow> if inRange b1 128 191 then 2 else 0
             | _ \<Rightarrow> 0)
          else if x \<le> 239 then
            (case rest of
               b1 # b2 # _ \<Rightarrow>
                 if inRange b1 (if x = 224 then 160 else 128) (if x = 237 then 159 else 191)
                    \<and> inRange b2 128 191
                 then 3 else 0
             | _ \<Rightarrow> 0)
          else if x \<le> 244 then
            (case rest of
               b1 # b2 # b3 # _ \<Rightarrow>
                 if inRange b1 (if x = 240 then 144 else 128) (if x = 244 then 143 else 191)
                    \<and> inRange b2 128 191 \<and> inRange b3 128 191
                 then 4 else 0
             | _ \<Rightarrow> 0)
          else 0)"

definition EncodeRune :: "nat \<Rightarrow> string" where
  "EncodeRune r0 =
     (let r = (if 1114111 < r0 \<or> (55296 \<le> r0 \<and> r0 \<le> 57343) then 65533 else r0) in
      if r < 128 then [char_of r]
      else if r < 2048 then [char_of (192 + r div 64), char_of (128 + r mod 64)]
      else if r < 65536 then
        [char_of (224 + r div 4096), char_of (128 + (r div 64) mod 64), char_of (128 + r mod 64)]
      else
        [char_of (240 + r div 262144), char_of (128 + (r div 4096) mod 64),
         char_of (128 + (r div 64) mod 64), char_of (128 + r mod 64)])"

text \<open>
  \<^verbatim>\<open>getu4\<close>: the rune of a \<^verbatim>\<open>\uXXXX\<close> at the head of the bytes, \<open>None\<close> for Go's \<open>-1\<close>.
  \<^verbatim>\<open>utf16.DecodeRune\<close>: the rune of a surrogate pair, the replacement character
  (65533) when the two are not a pair.
\<close>

definition getu4 :: "string \<Rightarrow> nat option" where
  "getu4 s =
     (case s of
        b # u # h1 # h2 # h3 # h4 # _ \<Rightarrow>
          if b = CHR 0x5C \<and> u = CHR ''u'' then
            (case (unhex h1, unhex h2, unhex h3, unhex h4) of
               (Some a, Some b, Some c, Some d) \<Rightarrow> Some (4096 * a + 256 * b + 16 * c + d)
             | _ \<Rightarrow> None)
          else None
      | _ \<Rightarrow> None)"

definition utf16_DecodeRune :: "nat \<Rightarrow> nat option \<Rightarrow> nat" where
  "utf16_DecodeRune r1 r2 =
     (case r2 of
        Some r2' \<Rightarrow>
          if 55296 \<le> r1 \<and> r1 < 56320 \<and> 56320 \<le> r2' \<and> r2' < 57344
          then (r1 - 55296) * 1024 + (r2' - 56320) + 65536
          else 65533
      | None \<Rightarrow> 65533)"

text \<open>
  \<^verbatim>\<open>unquoteBytes\<close> on the bytes between the quotes of a literal: escapes are replaced,
  well-formed UTF-8 is copied and every other byte becomes the replacement character.
  \<open>None\<close> is Go's \<^verbatim>\<open>ok == false\<close>.
\<close>

function unquote :: "string \<Rightarrow> string option" where
  "unquote [] = Some []"
| "unquote (c # cs) =
     (if c = CHR 0x5C then
        (case cs of
           [] \<Rightarrow> None
         | e # rest \<Rightarrow>
             if e = CHR 0x22 \<or> e = CHR 0x5C \<or> e = CHR ''/'' \<or> e = CHR 0x27 then
               map_option ((#) e) (unquote rest)
             else if e = CHR ''b'' then map_option ((#) (CHR 0x08)) (unquote rest)
             else if e = CHR ''f'' then map_option ((#) (CHR 0x0C)) (unquote rest)
             else if e = CHR ''n'' then map_option ((#) (CHR 0x0A)) (unquote rest)
             else if e = CHR ''r'' then map_option ((#) (CHR 0x0D)) (unquote rest)
             else if e = CHR ''t'' then map_option ((#) (CHR 0x09)) (unquote rest)
             else if e = CHR ''u'' then
               (case getu4 (c # cs) of
                  None \<Rightarrow> None
                | Some rr \<Rightarrow>
                    if 55296 \<le> rr \<and> rr < 57344 then
                      (let dec = utf16_DecodeRune rr (getu4 (drop 6 (c # cs))) in
                       if dec \<noteq> 65533 then
                         map_option ((@) (EncodeRune dec)) (unquote (drop 12 (c # cs)))
                       else map_option ((@) (EncodeRune 65533)) (unquote (drop 6 (c # cs))))
                    else map_option ((@) (EncodeRune rr)) (unquote (drop 6 (c # cs))))
             else None)
      else if c = CHR 0x22 \<or> byte c < 32 then None
      else if byte c < 128 then map_option ((#) c) (unquote cs)
      else
        (let n = utf8_size (c # cs) in
         if n = 0 then map_option ((@) (EncodeRune 65533)) (unquote cs)
         else map_option ((@) (take n (c # cs))) (unquote (drop n (c # cs)))))"
  by pat_completeness auto
termination
  by (relation "measure length") (auto simp add: getu4_def split: list.splits)

text \<open>
  What \<^verbatim>\<open>json.Unmarshal\<close> does with a \<^verbatim>\<open>*string\<close>: a string literal is stored; \<^verbatim>\<open>null\<close>
  leaves the string as it is; an object, an array, a boolean or a number is a type
  error and leaves the string as it is; data that is not one JSON value is a syntax
  error.
\<close>

datatype decoded = Stored string | Unchanged | Mismatch string | Malformed

definition trim_right :: "string \<Rightarrow> string" where
  "trim_right s = rev (dropWhile isSpace (rev s))"

definition decode_string :: "string \<Rightarrow> decoded" where
  "decode_string data =
     (if \<not> checkValid data then Malformed
      else (case dropWhile isSpace data of
              [] \<Rightarrow> Malformed
            | c # cs \<Rightarrow>
                if c = CHR ''{'' then Mismatch ''object''
                else if c = CHR ''['' then Mismatch ''array''
                else if c = CHR ''n'' then Unchanged
                else if c = CHR ''t'' \<or> c = CHR ''f'' then Mismatch ''bool''
                else if c = CHR 0x22 then
                  (case unquote (butlast (trim_right cs)) of
                     Some s \<Rightarrow> Stored s
                   | None \<Rightarrow> Malformed)
                else Mismatch ''number''))"

definition Unmarshal_string :: "string \<Rightarrow> string \<Rightarrow> string \<times> error option" where
  "Unmarshal_string data v =
     (case decode_string data of
        Stored s \<Rightarrow> (s, None)
      | Unchanged \<Rightarrow> (v, None)
      | Mismatch k \<Rightarrow> (v, Some (UnmarshalTypeError k ''string''))
      | Malformed \<Rightarrow> (v, Some SyntaxError))"

text \<open>
  \<^verbatim>\<open>utf8.Valid\<close>: the bytes are well-formed UTF-8. A byte of a JSON string literal
  that stands for itself: not a control character, the quote or the backslash.
\<close>

function utf8_Valid :: "string \<Rightarrow> bool" where
  "utf8_Valid [] = True"
| "utf8_Valid (c # cs) =
     (let n = utf8_size (c # cs) in if n = 0 then False else utf8_Valid (drop n (c # cs)))"
  by pat_completeness auto
termination
  by (relation "measure length") auto

definition dquote :: char where
  "dquote = CHR 0x22"

definition unescaped :: "char \<Rightarrow> bool" where
  "unescaped c = (32 \<le> byte c \<and> c \<noteq> dquote \<and> c \<noteq> CHR 0x5C)"

subsection \<open>A server double\<close>

text \<open>
  Environments in the manner of the \<^verbatim>\<open>httptest\<close> handlers of \<^verbatim>\<open>client_test.go\<close>, to run
  the dispatcher on concrete calls: every request is accepted and answered, in one
  round trip, with one fixed status and body. The result pointer is a \<^verbatim>\<open>*string\<close>. A
  payload is a boolean, or holds a \<^verbatim>\<open>float64\<close> NaN, which \<^verbatim>\<open>json.Marshal\<close> refuses.
\<close>

datatype go_value = GoBool bool | GoNaN

definition double_Marshal :: "go_value \<Rightarrow> error + string" where
  "double_Marshal v =
     (case v of
        GoNaN \<Rightarrow> Inl (LibError ''json: unsupported value: NaN'')
      | GoBool b \<Rightarrow> Inr (if b then ''true'' else ''false''))"

definition httptest_env :: "int \<Rightarrow> string \<Rightarrow> (go_value, string) env" where
  "httptest_env status body =
     \<lparr>Marshal = double_Marshal,
      NewRequestCheck = (\<lambda>ctx method url. None),
      Do = (\<lambda>hc req. Inr \<lparr>resp_StatusCode = status, resp_Body = Data body EOF\<rparr>),
      RoundTrips = (\<lambda>hc req. 1),
      Now = 1700000000,
      Unmarshal = Unmarshal_string\<rparr>"

text \<open>
  A server that answers the first request with a redirect to a second address, which
  answers with the status and the body: \<open>Do\<close> follows the redirect and returns the second
  response, after two round trips.
\<close>

definition redirecting_env :: "int \<Rightarrow> string \<Rightarrow> (go_value, string) env" where
  "redirecting_env status body = (httptest_env status body)\<lparr>RoundTrips := (\<lambda>hc req. 2)\<rparr>"

text \<open>
  What the handler of \<^verbatim>\<open>TestVersion\<close> writes, \<^verbatim>\<open>json.NewEncoder(w).Encode("0.4.24")\<close>:
  the JSON string and a newline.
\<close>

definition version_json :: string where
  "version_json = dquote # ''0.4.24'' @ [dquote, CHR 0x0A]"

section \<open>Properties\<close>

subsection \<open>Auxiliary facts about the dispatcher\<close>

lemma marshal_body_Unmarshal_update:
  "marshal_body (env\<lparr>Unmarshal := u\<rparr>) body = marshal_body env body"
  by (cases body) (simp_all add: marshal_body_def)

lemma NewRequestWithContext_Unmarshal_update:
  "NewRequestWithContext (env\<lparr>Unmarshal := u\<rparr>) ctx meth url b
     = NewRequestWithContext env ctx meth url b"
  by (simp add: NewRequestWithContext_def)

text \<open>
  When the payload serialises, the request is accepted and the transport answers, the
  call returns according to what \<^verbatim>\<open>io.ReadAll\<close> returns.
\<close>

lemma doRequest_reached_Do:
  assumes "marshal_body env body = Inr bodyReader"
    and "NewRequestWithContext env ctx meth (baseURL c @ path) bodyReader = Inr req"
    and "httpClient c = Some hc"
    and "Do env hc (set_content_type body req) = Inr resp"
  shows "doRequest env c ctx meth path body result
           = Return (case ReadAll (resp_Body resp) of
                       (respBody, Some e) \<Rightarrow>
                         \<lparr>err = Some (Errorf ''failed to read response body'' e),
                          slot = result, sent = [set_content_type body req]\<rparr>
                     | (respBody, None) \<Rightarrow>
                         classify env (set_content_type body req) (resp_StatusCode resp)
                           respBody result)"
  using assms by (simp add: doRequest_def split: prod.splits option.splits)

lemma doRequest_reached_response:
  assumes "marshal_body env body = Inr bodyReader"
    and "NewRequestWithContext env ctx meth (baseURL c @ path) bodyReader = Inr req"
    and "httpClient c = Some hc"
    and "Do env hc (set_content_type body req) = Inr resp"
    and "ReadAll (resp_Body resp) = (respBody, None)"
  shows "doRequest env c ctx meth path body result
           = Return (classify env (set_content_type body req) (resp_StatusCode resp)
                       respBody result)"
  using assms by (simp add: doRequest_def)

lemma doRequest_reached_response_Unmarshal_update:
  assumes "marshal_body env body = Inr bodyReader"
    and "NewRequestWithContext env ctx meth (baseURL c @ path) bodyReader = Inr req"
    and "httpClient c = Some hc"
    and "Do env hc (set_content_type body req) = Inr resp"
    and "ReadAll (resp_Body resp) = (respBody, None)"
  shows "doRequest (env\<lparr>Unmarshal := u\<rparr>) c ctx meth path body result
           = Return (classify (env\<lparr>Unmarshal := u\<rparr>) (set_content_type body req)
                       (resp_StatusCode resp) respBody result)"
  using assms
  by (intro doRequest_reached_response [where bodyReader = bodyReader and hc = hc])
     (simp_all add: marshal_body_Unmarshal_update NewRequestWithContext_Unmarshal_update)

text \<open>An \<open>HTTPError\<close> comes out of the classification of a status outside the 2xx range only.\<close>

lemma classify_HTTPError:
  assumes "err (classify env req status respBody result) = Some (HTTPErrorPtr e)"
  shows "slot (classify env req status respBody result) = result
         \<and> classify (env\<lparr>Unmarshal := u\<rparr>) req status respBody result
             = classify env req status respBody result
         \<and> (status < 200 \<or> 300 \<le> status)"
  using assms
  by (cases "status < 200 \<or> 300 \<le> status")
     (simp_all add: classify_def split: option.splits prod.splits if_splits)

text \<open>\<^verbatim>\<open>io.ReadAll\<close> returns all the data of a reader that ends, however it is cut.\<close>

lemma ReadAll_to_the_end: "ReadAll (foldr Data chunks EOF) = (concat chunks, None)"
  by (induction chunks) simp_all

lemma ReadAll_failing: "ReadAll (foldr Data chunks (ReadErr e)) = (concat chunks, Some e)"
  by (induction chunks) simp_all

subsection \<open>Auxiliary facts about the decoder of strings\<close>

lemma scan_spaces_begin:
  "list_all isSpace ws \<Longrightarrow> step st = stateBeginValue \<Longrightarrow> foldl scan_byte st ws = st"
  by (induction ws) (simp_all add: scan_byte_def do_stateBeginValue_def)

lemma scan_unescaped_in_string:
  "list_all unescaped s \<Longrightarrow> step st = stateInString \<Longrightarrow> foldl scan_byte st s = st"
  by (induction s) (simp_all add: scan_byte_def unescaped_def dquote_def)

lemma scan_spaces_top:
  "list_all isSpace ws \<Longrightarrow>
   foldl scan_byte \<lparr>step = stateEndTop, endTop = True, parseState = []\<rparr> ws
     = \<lparr>step = stateEndTop, endTop = True, parseState = []\<rparr>"
  by (induction ws) (simp_all add: scan_byte_def do_stateEndTop_def)

lemma scan_spaces_after_value:
  "list_all isSpace ws \<Longrightarrow>
   scan_eof (foldl scan_byte \<lparr>step = stateEndValue, endTop = False, parseState = []\<rparr> ws)"
proof (cases ws)
  case Nil
  then show ?thesis
    by (simp add: scan_eof_def scan_byte_def do_stateEndValue_def do_stateEndTop_def isSpace_def)
next
  case (Cons w ws')
  assume "list_all isSpace ws"
  with Cons have w: "isSpace w" and ws': "list_all isSpace ws'" by simp_all
  have "scan_byte \<lparr>step = stateEndValue, endTop = False, parseState = []\<rparr> w
          = \<lparr>step = stateEndTop, endTop = True, parseState = []\<rparr>"
    using w by (simp add: scan_byte_def do_stateEndValue_def do_stateEndTop_def)
  with Cons ws' show ?thesis by (simp add: scan_spaces_top scan_eof_def)
qed

lemma isSpace_not_quote: "\<not> isSpace dquote"
  by (simp add: isSpace_def dquote_def)

lemma checkValid_plain_literal:
  assumes "list_all isSpace ws" and "list_all unescaped s" and "list_all isSpace ws'"
  shows "checkValid (ws @ dquote # s @ dquote # ws')"
proof -
  have a: "foldl scan_byte scan_reset ws = scan_reset"
    using assms(1) by (rule scan_spaces_begin) (simp add: scan_reset_def)
  have b: "scan_byte scan_reset dquote
             = \<lparr>step = stateInString, endTop = False, parseState = []\<rparr>"
    by (simp add: scan_byte_def do_stateBeginValue_def scan_reset_def isSpace_def dquote_def)
  have c: "foldl scan_byte \<lparr>step = stateInString, endTop = False, parseState = []\<rparr> s
             = \<lparr>step = stateInString, endTop = False, parseState = []\<rparr>"
    using assms(2) by (rule scan_unescaped_in_string) simp
  have d: "scan_byte \<lparr>step = stateInString, endTop = False, parseState = []\<rparr> dquote
             = \<lparr>step = stateEndValue, endTop = False, parseState = []\<rparr>"
    by (simp add: scan_byte_def dquote_def)
  show ?thesis
    using assms(3) by (simp add: checkValid_def a b c d scan_spaces_after_value)
qed

lemma utf8_size_ascii: "byte c < 128 \<Longrightarrow> utf8_size (c # cs) = 1"
  by (simp add: utf8_size_def)

lemma unquote_unescaped:
  "utf8_Valid s \<Longrightarrow> list_all unescaped s \<Longrightarrow> unquote s = Some s"
proof (induction s rule: utf8_Valid.induct)
  case 1
  then show ?case by simp
next
  case (2 c cs)
  let ?n = "utf8_size (c # cs)"
  from "2.prems"(1) have n: "?n \<noteq> 0" and v: "utf8_Valid (drop ?n (c # cs))"
    by (simp_all add: Let_def split: if_splits)
  from "2.prems"(2) have u: "list_all unescaped (drop ?n (c # cs))"
    by (metis append_take_drop_id list_all_append)
  have ih: "unquote (drop ?n (c # cs)) = Some (drop ?n (c # cs))"
    using "2.IH" [OF refl n v u] .
  from "2.prems"(2) have c: "32 \<le> byte c" "c \<noteq> CHR 0x22" "c \<noteq> CHR 0x5C"
    by (simp_all add: unescaped_def dquote_def)
  show ?case
  proof (cases "byte c < 128")
    case True
    then have "?n = 1" by (rule utf8_size_ascii)
    with ih have "unquote cs = Some cs" by simp
    with True c show ?thesis by simp
  next
    case False
    have "take ?n (c # cs) @ drop ?n (c # cs) = c # cs" by (rule append_take_drop_id)
    with False c n ih show ?thesis by (simp add: Let_def)
  qed
qed

lemma dropWhile_spaces_then:
  "list_all isSpace ws \<Longrightarrow> \<not> isSpace c \<Longrightarrow> dropWhile isSpace (ws @ c # rest) = c # rest"
  by (induction ws) simp_all

lemma trim_right_spaces:
  "list_all isSpace ws \<Longrightarrow> \<not> isSpace c \<Longrightarrow> trim_right (s @ c # ws) = s @ [c]"
proof -
  assume ws: "list_all isSpace ws" and c: "\<not> isSpace c"
  have "list_all isSpace (rev ws)" using ws by (simp add: list_all_iff)
  then have "dropWhile isSpace (rev ws @ c # rev s) = c # rev s"
    using c by (rule dropWhile_spaces_then)
  then show ?thesis by (simp add: trim_right_def)
qed

text \<open>
  A string literal without escapes, with spaces around it, decodes to the bytes between
  its quotes.
\<close>

lemma decode_string_plain_literal:
  assumes "list_all isSpace ws" and "list_all unescaped s" and "utf8_Valid s"
    and "list_all isSpace ws'"
  shows "decode_string (ws @ dquote # s @ dquote # ws') = Stored s"
proof -
  have v: "checkValid (ws @ dquote # s @ dquote # ws')"
    using assms(1,2,4) by (rule checkValid_plain_literal)
  have d: "dropWhile isSpace (ws @ dquote # s @ dquote # ws') = dquote # s @ dquote # ws'"
    using assms(1) isSpace_not_quote by (rule dropWhile_spaces_then)
  have t: "trim_right (s @ dquote # ws') = s @ [dquote]"
    using assms(4) isSpace_not_quote by (rule trim_right_spaces)
  have q: "dquote = CHR 0x22" by (simp add: dquote_def)
  have u: "unquote s = Some s" using assms(3,2) by (rule unquote_unescaped)
  show ?thesis
    by (simp add: decode_string_def v d t u) (simp add: q)
qed

lemma Unmarshal_string_plain_literal:
  assumes "list_all isSpace ws" and "list_all unescaped s" and "utf8_Valid s"
    and "list_all isSpace ws'"
  shows "Unmarshal_string (ws @ dquote # s @ dquote # ws') v = (s, None)"
  using decode_string_plain_literal [OF assms] by (simp add: Unmarshal_string_def)

lemma version_is_plain: "list_all unescaped ''0.4.24''" "utf8_Valid ''0.4.24''"
  by (simp_all add: unescaped_def utf8_size_def byte_def dquote_def)

lemma Unmarshal_string_version: "Unmarshal_string version_json v = (''0.4.24'', None)"
  using Unmarshal_string_plain_literal [of "[]" "''0.4.24''" "[CHR 0x0A]" v] version_is_plain
  by (simp add: version_json_def isSpace_def)


lemma NewClient_Nil:
  "NewClient [] = Return \<lparr>baseURL = ''http://localhost:8000'',
                           httpClient = Some \<lparr>Transport = None, Timeout = 30 * Second\<rparr>,
                           tenant = DefaultTenant, database = DefaultDatabase\<rparr>"
  by (simp add: NewClient_def)

lemma go_bind_Return: "go_bind (Return x) f = f x"
  by (simp add: go_bind_def)

lemma escape_defaults:
  "QueryEscape DefaultTenant = ''default_tenant''"
  "QueryEscape DefaultDatabase = ''default_database''"
  by (simp_all add: DefaultTenant_def DefaultDatabase_def QueryEscape_def escape_byte_def
        shouldEscape_def)

subsection \<open>The error string\<close>

text \<open>
  Claim C10. The \<^verbatim>\<open>Error()\<close> string of an \<open>HTTPError\<close> is exactly its \<open>Message\<close>;
  the status code and the timestamp do not enter it: changing them leaves the string
  as it was.
\<close>

theorem HTTPError_Error_is_Message:
  "HTTPError_Error e = Message e
   \<and> HTTPError_Error (e\<lparr>StatusCode := s, Timestamp := t\<rparr>) = HTTPError_Error e
   \<and> Error (HTTPErrorPtr e) = Message e"
  by (simp add: HTTPError_Error_def)

subsection \<open>Responses outside the 2xx range\<close>

text \<open>
  Claim C1. When the transport answers and the body of the response is read, a status
  code outside \<open>[200, 300)\<close> makes \<open>doRequest\<close> return an \<open>HTTPError\<close> whose status code
  is the status of the response, whose message is the bytes of the body as read, and
  whose timestamp is the reading of the clock. The body is not parsed: the error is the
  same whatever \<^verbatim>\<open>json.Unmarshal\<close> would do.
\<close>

theorem doRequest_non_2xx_is_HTTPError:
  assumes "marshal_body env body = Inr bodyReader"
    and "NewRequestWithContext env ctx meth (baseURL c @ path) bodyReader = Inr req"
    and "httpClient c = Some hc"
    and "Do env hc (set_content_type body req) = Inr resp"
    and "ReadAll (resp_Body resp) = (respBody, None)"
    and "resp_StatusCode resp < 200 \<or> resp_StatusCode resp \<ge> 300"
  shows "map_go err (doRequest env c ctx meth path body result)
           = Return (Some (HTTPErrorPtr \<lparr>StatusCode = resp_StatusCode resp,
                                Message = respBody, Timestamp = Now env\<rparr>))
         \<and> map_go err (doRequest (env\<lparr>Unmarshal := u\<rparr>) c ctx meth path body result)
           = map_go err (doRequest env c ctx meth path body result)"
proof -
  have a: "doRequest env c ctx meth path body result
           = Return (classify env (set_content_type body req) (resp_StatusCode resp)
                       respBody result)"
    using assms(1-5) by (rule doRequest_reached_response)
  have b: "doRequest (env\<lparr>Unmarshal := u\<rparr>) c ctx meth path body result
           = Return (classify (env\<lparr>Unmarshal := u\<rparr>) (set_content_type body req)
                       (resp_StatusCode resp) respBody result)"
    using assms(1-5) by (rule doRequest_reached_response_Unmarshal_update)
  show ?thesis using assms(6) by (simp add: a b classify_def)
qed

text \<open>
  The scenario of \<^verbatim>\<open>TestHTTPError\<close>: a server answering \<open>404\<close> with the body
  \<^verbatim>\<open>Collection not found\<close>, here to the deletion of a collection.
\<close>

theorem doRequest_non_2xx_is_HTTPError_witness:
  "go_bind (NewClient [])
     (\<lambda>c. map_go err (DeleteCollection (httptest_env 404 ''Collection not found'') c
              Background ''nonexistent'' [] [] :: string outcome go))
     = Return (Some (HTTPErrorPtr \<lparr>StatusCode = 404, Message = ''Collection not found'',
                        Timestamp = 1700000000\<rparr>))"
proof -
  let ?c = "\<lparr>baseURL = ''http://localhost:8000'',
             httpClient = Some \<lparr>Transport = None, Timeout = 30 * Second\<rparr>,
             tenant = DefaultTenant, database = DefaultDatabase\<rparr>"
  have p: "DeleteCollection_path ?c ''nonexistent'' [] []
      = ''/api/v2/tenants/default_tenant/databases/default_database/collections/nonexistent''"
    by (simp add: DeleteCollection_path_def escape_defaults)
  show ?thesis
    unfolding NewClient_Nil go_bind_Return DeleteCollection_def p
    using doRequest_non_2xx_is_HTTPError
     [where env = "httptest_env 404 ''Collection not found''" and body = None
      and bodyReader = None and ctx = Background and meth = MethodDelete
      and c = ?c
      and path = "''/api/v2/tenants/default_tenant/databases/default_database/collections/nonexistent''"
      and req = "\<lparr>Ctx = Background, Method = MethodDelete,
                URL = ''http://localhost:8000/api/v2/tenants/default_tenant/databases/default_database/collections/nonexistent'',
                ReqBody = None, Header = []\<rparr>"
      and hc = "\<lparr>Transport = None, Timeout = 30 * Second\<rparr>"
      and resp = "\<lparr>resp_StatusCode = 404, resp_Body = Data ''Collection not found'' EOF\<rparr>"
      and respBody = "''Collection not found''" and result = "None :: string option"]
    by (simp add: httptest_env_def marshal_body_def NewRequestWithContext_def
          set_content_type_def)
qed

subsection \<open>Responses in the 2xx range\<close>




text \<open>
  Claim C5. When the response has a 2xx status, the result pointer is present and the
  body is empty, the call returns no error and the value behind the pointer is the one
  it held before; \<^verbatim>\<open>json.Unmarshal\<close> is not consulted, since the outcome is the same
  whatever the decoder is.
\<close>

theorem doRequest_2xx_empty_body_skips_decoding:
  assumes "marshal_body env body = Inr bodyReader"
    and "NewRequestWithContext env ctx meth (baseURL c @ path) bodyReader = Inr req"
    and "httpClient c = Some hc"
    and "Do env hc (set_content_type body req) = Inr resp"
    and "ReadAll (resp_Body resp) = ([], None)"
    and "200 \<le> resp_StatusCode resp" and "resp_StatusCode resp < 300"
  shows "doRequest env c ctx meth path body (Some r)
           = Return \<lparr>err = None, slot = Some r, sent = [set_content_type body req]\<rparr>
         \<and> doRequest (env\<lparr>Unmarshal := u\<rparr>) c ctx meth path body (Some r)
           = doRequest env c ctx meth path body (Some r)"
proof -
  have a: "doRequest env c ctx meth path body (Some r)
           = Return (classify env (set_content_type body req) (resp_StatusCode resp) []
                       (Some r))"
    using assms(1-5) by (rule doRequest_reached_response)
  have b: "doRequest (env\<lparr>Unmarshal := u\<rparr>) c ctx meth path body (Some r)
           = Return (classify (env\<lparr>Unmarshal := u\<rparr>) (set_content_type body req)
                       (resp_StatusCode resp) [] (Some r))"
    using assms(1-5) by (rule doRequest_reached_response_Unmarshal_update)
  show ?thesis using assms(6,7) by (simp add: a b classify_def)
qed

theorem doRequest_2xx_empty_body_skips_decoding_witness:
  "go_bind (NewClient [])
     (\<lambda>c. doRequest (httptest_env 204 []) c Background MethodGet
             ''/api/v2/version'' None (Some ''before''))
     = Return \<lparr>err = None, slot = Some ''before'',
               sent = [\<lparr>Ctx = Background, Method = ''GET'',
                        URL = ''http://localhost:8000/api/v2/version'',
                        ReqBody = None, Header = []\<rparr>]\<rparr>"
  unfolding NewClient_Nil go_bind_Return
  using doRequest_2xx_empty_body_skips_decoding
     [where env = "httptest_env 204 []" and body = None
      and bodyReader = None and ctx = Background and meth = MethodGet
      and c = "\<lparr>baseURL = ''http://localhost:8000'',
                httpClient = Some \<lparr>Transport = None, Timeout = 30 * Second\<rparr>,
                tenant = DefaultTenant, database = DefaultDatabase\<rparr>"
      and path = "''/api/v2/version''"
      and req = "\<lparr>Ctx = Background, Method = MethodGet,
                URL = ''http://localhost:8000/api/v2/version'',
                ReqBody = None, Header = []\<rparr>"
      and hc = "\<lparr>Transport = None, Timeout = 30 * Second\<rparr>"
      and resp = "\<lparr>resp_StatusCode = 204, resp_Body = Data [] EOF\<rparr>"
      and r = "''before''"]
  by (simp add: httptest_env_def marshal_body_def NewRequestWithContext_def
        set_content_type_def MethodGet_def)

subsection \<open>Round trips\<close>

lemma no_Do_no_round_trip: "Do_calls g = 0 \<Longrightarrow> transport_round_trips env c g = 0"
  by (cases g) (simp_all add: Do_calls_def transport_round_trips_def split: option.splits)

lemma round_trips_of_the_call:
  assumes "marshal_body env body = Inr bodyReader"
    and "NewRequestWithContext env ctx meth (baseURL c @ path) bodyReader = Inr req"
    and "httpClient c = Some hc"
  shows "transport_round_trips env c (doRequest env c ctx meth path body result)
           = RoundTrips env hc (set_content_type body req)"
  using assms
  by (simp add: doRequest_def classify_def transport_round_trips_def Let_def
      split: sum.splits option.splits prod.splits)

text \<open>
  Claim C8, as the code has it. A call of \<open>doRequest\<close> calls \<^verbatim>\<open>c.httpClient.Do\<close> at most
  once and never a second time: exactly once when the payload serialises (or is nil),
  the request is accepted by \<^verbatim>\<open>http.NewRequestWithContext\<close> and the HTTP client is not
  nil, and not at all otherwise. The round trips of the transport are those of that one
  call of \<open>Do\<close>, and none when \<open>Do\<close> is not called. There are no partial reads: a body
  that ends is read to its end, however it is cut into pieces, before the status is
  looked at; a body whose reading fails makes the call return that error wrapped as
  \<^verbatim>\<open>failed to read response body\<close>, whatever was read before and whatever the status.
\<close>

theorem doRequest_calls_Do_at_most_once:
  "Do_calls (doRequest env c ctx meth path body result) \<le> 1
   \<and> (Do_calls (doRequest env c ctx meth path body result) = 1
        \<longleftrightarrow> (\<exists>bodyReader req hc. marshal_body env body = Inr bodyReader
              \<and> NewRequestWithContext env ctx meth (baseURL c @ path) bodyReader = Inr req
              \<and> httpClient c = Some hc))
   \<and> (marshal_body env body = Inr bodyReader
        \<and> NewRequestWithContext env ctx meth (baseURL c @ path) bodyReader = Inr req
        \<and> httpClient c = Some hc
      \<longrightarrow> transport_round_trips env c (doRequest env c ctx meth path body result)
            = RoundTrips env hc (set_content_type body req))
   \<and> (Do_calls (doRequest env c ctx meth path body result) = 0
      \<longrightarrow> transport_round_trips env c (doRequest env c ctx meth path body result) = 0)
   \<and> (marshal_body env body = Inr bodyReader
        \<and> NewRequestWithContext env ctx meth (baseURL c @ path) bodyReader = Inr req
        \<and> httpClient c = Some hc
        \<and> Do env hc (set_content_type body req) = Inr resp
        \<and> resp_Body resp = foldr Data chunks EOF
      \<longrightarrow> doRequest env c ctx meth path body result
            = Return (classify env (set_content_type body req) (resp_StatusCode resp)
                        (concat chunks) result))
   \<and> (marshal_body env body = Inr bodyReader
        \<and> NewRequestWithContext env ctx meth (baseURL c @ path) bodyReader = Inr req
        \<and> httpClient c = Some hc
        \<and> Do env hc (set_content_type body req) = Inr resp
        \<and> resp_Body resp = foldr Data chunks (ReadErr e)
      \<longrightarrow> doRequest env c ctx meth path body result
            = Return \<lparr>err = Some (Errorf ''failed to read response body'' e),
                      slot = result, sent = [set_content_type body req]\<rparr>)"
proof -
  have 1: "Do_calls (doRequest env c ctx meth path body result) \<le> 1
   \<and> (Do_calls (doRequest env c ctx meth path body result) = 1
        \<longleftrightarrow> (\<exists>bodyReader req hc. marshal_body env body = Inr bodyReader
              \<and> NewRequestWithContext env ctx meth (baseURL c @ path) bodyReader = Inr req
              \<and> httpClient c = Some hc))"
    by (simp add: doRequest_def classify_def Do_calls_def Let_def
        split: sum.splits option.splits prod.splits)
  have 3: "marshal_body env body = Inr bodyReader
        \<and> NewRequestWithContext env ctx meth (baseURL c @ path) bodyReader = Inr req
        \<and> httpClient c = Some hc
      \<longrightarrow> transport_round_trips env c (doRequest env c ctx meth path body result)
            = RoundTrips env hc (set_content_type body req)"
    using round_trips_of_the_call by blast
  have 4: "Do_calls (doRequest env c ctx meth path body result) = 0
      \<longrightarrow> transport_round_trips env c (doRequest env c ctx meth path body result) = 0"
    using no_Do_no_round_trip by blast
  have 5: "marshal_body env body = Inr bodyReader
        \<and> NewRequestWithContext env ctx meth (baseURL c @ path) bodyReader = Inr req
        \<and> httpClient c = Some hc
        \<and> Do env hc (set_content_type body req) = Inr resp
        \<and> resp_Body resp = foldr Data chunks EOF
      \<longrightarrow> doRequest env c ctx meth path body result
            = Return (classify env (set_content_type body req) (resp_StatusCode resp)
                        (concat chunks) result)"
    by (simp add: doRequest_reached_Do ReadAll_to_the_end)
  have 6: "marshal_body env body = Inr bodyReader
        \<and> NewRequestWithContext env ctx meth (baseURL c @ path) bodyReader = Inr req
        \<and> httpClient c = Some hc
        \<and> Do env hc (set_content_type body req) = Inr resp
        \<and> resp_Body resp = foldr Data chunks (ReadErr e)
      \<longrightarrow> doRequest env c ctx meth path body result
            = Return \<lparr>err = Some (Errorf ''failed to read response body'' e),
                      slot = result, sent = [set_content_type body req]\<rparr>"
    by (simp add: doRequest_reached_Do ReadAll_failing)
  from 1 3 4 5 6 show ?thesis by blast
qed

text \<open>
  \<open>Add\<close> with a payload that serialises, and a \<^verbatim>\<open>GET\<close> whose body breaks off after
  three bytes.
\<close>

theorem doRequest_calls_Do_at_most_once_witness:
  "map_go (\<lambda>c. Do_calls (Add (httptest_env 200 []) c Background ''c1'' (GoBool True)
                    :: string outcome go)) (NewClient []) = Return 1
   \<and> map_go (\<lambda>c. transport_round_trips (httptest_env 200 []) c
                    (Add (httptest_env 200 []) c Background ''c1'' (GoBool True)
                      :: string outcome go)) (NewClient []) = Return 1
   \<and> go_bind (NewClient [])
        (\<lambda>c. doRequest
                ((httptest_env 200 [])
                   \<lparr>Do := \<lambda>hc req. Inr \<lparr>resp_StatusCode = 200,
                                         resp_Body = Data ''0.4'' (ReadErr (LibError ''unexpected EOF''))\<rparr>\<rparr>)
                c Background MethodGet ''/api/v2/version'' None (Some ''before''))
       = Return \<lparr>err = Some (Errorf ''failed to read response body'' (LibError ''unexpected EOF'')),
                 slot = Some ''before'',
                 sent = [\<lparr>Ctx = Background, Method = ''GET'',
                          URL = ''http://localhost:8000/api/v2/version'',
                          ReqBody = None, Header = []\<rparr>]\<rparr>"
proof -
  let ?c = "\<lparr>baseURL = ''http://localhost:8000'',
             httpClient = Some \<lparr>Transport = None, Timeout = 30 * Second\<rparr>,
             tenant = DefaultTenant, database = DefaultDatabase\<rparr>"
  let ?hc = "\<lparr>Transport = None, Timeout = 30 * Second\<rparr>"
  let ?env = "httptest_env 200 [] :: (go_value, string) env"
  let ?cut = "?env\<lparr>Do := \<lambda>hc req. Inr \<lparr>resp_StatusCode = 200,
                     resp_Body = Data ''0.4'' (ReadErr (LibError ''unexpected EOF''))\<rparr>\<rparr>"
  let ?add = "\<lparr>Ctx = Background, Method = MethodPost,
               URL = ''http://localhost:8000/api/v2/collections/c1/add'',
               ReqBody = Some ''true'', Header = []\<rparr>"
  let ?get = "\<lparr>Ctx = Background, Method = MethodGet,
               URL = ''http://localhost:8000/api/v2/version'',
               ReqBody = None, Header = []\<rparr>"
  note add = doRequest_calls_Do_at_most_once
     [where env = ?env and c = ?c and ctx = Background and meth = MethodPost
      and path = "Add_path ''c1''" and body = "Some (GoBool True)"
      and result = "None :: string option" and bodyReader = "Some ''true''"
      and req = ?add and hc = ?hc]
  have m: "marshal_body ?env (Some (GoBool True)) = Inr (Some ''true'')"
    by (simp add: marshal_body_def httptest_env_def double_Marshal_def)
  have n: "NewRequestWithContext ?env Background MethodPost (baseURL ?c @ Add_path ''c1'')
             (Some ''true'') = Inr ?add"
    by (simp add: NewRequestWithContext_def httptest_env_def Add_path_def)
  have calls: "Do_calls (doRequest ?env ?c Background MethodPost (Add_path ''c1'')
                 (Some (GoBool True)) (None :: string option)) = 1"
    using m n add [THEN conjunct2, THEN conjunct1] by auto
  have trips: "transport_round_trips ?env ?c (doRequest ?env ?c Background MethodPost
                 (Add_path ''c1'') (Some (GoBool True)) (None :: string option)) = 1"
    using m n add [THEN conjunct2, THEN conjunct2, THEN conjunct1]
    by (simp add: httptest_env_def)
  have cut: "doRequest ?cut ?c Background MethodGet ''/api/v2/version'' None (Some ''before'')
       = Return \<lparr>err = Some (Errorf ''failed to read response body'' (LibError ''unexpected EOF'')),
                 slot = Some ''before'', sent = [?get]\<rparr>"
    using doRequest_calls_Do_at_most_once
     [where env = ?cut and c = ?c and ctx = Background and meth = MethodGet
      and path = "''/api/v2/version''" and body = None and result = "Some ''before''"
      and bodyReader = None and req = ?get and hc = ?hc
      and resp = "\<lparr>resp_StatusCode = 200,
                   resp_Body = Data ''0.4'' (ReadErr (LibError ''unexpected EOF''))\<rparr>"
      and chunks = "[''0.4'']" and e = "LibError ''unexpected EOF''",
      THEN conjunct2, THEN conjunct2, THEN conjunct2, THEN conjunct2, THEN conjunct2]
    by (simp add: marshal_body_def NewRequestWithContext_def httptest_env_def
          set_content_type_def)
  from calls trips cut show ?thesis
    by (simp add: NewClient_Nil go_bind_Return Add_def MethodGet_def)
qed

text \<open>
  The claim as written fails in both directions. \<open>Add\<close> with a payload holding NaN
  returns the error of \<^verbatim>\<open>json.Marshal\<close> and the transport makes no round trip. \<open>Version\<close>
  against a server that redirects once makes two round trips: \<open>NewClient\<close> sets no
  \<^verbatim>\<open>CheckRedirect\<close>, so \<open>Do\<close> follows the redirect.
\<close>

theorem round_trips_not_exactly_one:
  "go_bind (NewClient []) (\<lambda>c. Add (httptest_env 200 []) c Background ''c1'' GoNaN)
     = Return \<lparr>err = Some (Errorf ''failed to marshal request body''
                               (LibError ''json: unsupported value: NaN'')),
               slot = (None :: string option), sent = []\<rparr>
   \<and> map_go (\<lambda>c. transport_round_trips (httptest_env 200 []) c
                    (Add (httptest_env 200 []) c Background ''c1'' GoNaN
                      :: string outcome go)) (NewClient []) = Return 0
   \<and> map_go (\<lambda>c. transport_round_trips (redirecting_env 200 version_json) c
                    (Version (redirecting_env 200 version_json) c Background))
        (NewClient []) = Return 2"
proof -
  have ne: "version_json \<noteq> []" by (simp add: version_json_def)
  then show ?thesis
    by (simp add: NewClient_Nil go_bind_Return Add_def Version_def doRequest_def classify_def
         marshal_body_def httptest_env_def redirecting_env_def double_Marshal_def
         NewRequestWithContext_def set_content_type_def transport_round_trips_def
         Unmarshal_string_version)
qed

subsection \<open>The result pointer on the error path\<close>

text \<open>
  Claim C9. Whenever \<open>doRequest\<close> returns an \<open>HTTPError\<close>, the value behind the result
  pointer is the one it held before the call, and decoding was not attempted: the call
  returns the same whatever \<^verbatim>\<open>json.Unmarshal\<close> is.
\<close>

theorem doRequest_HTTPError_keeps_result:
  assumes "doRequest env c ctx meth path body result = Return out"
    and "err out = Some (HTTPErrorPtr e)"
  shows "slot out = result
         \<and> doRequest (env\<lparr>Unmarshal := u\<rparr>) c ctx meth path body result = Return out"
proof (cases "marshal_body env body")
  case (Inl e1)
  with assms show ?thesis by (auto simp add: doRequest_def)
next
  case (Inr bodyReader)
  note mb = this
  show ?thesis
  proof (cases "NewRequestWithContext env ctx meth (baseURL c @ path) bodyReader")
    case (Inl e2)
    with mb assms show ?thesis by (auto simp add: doRequest_def)
  next
    case (Inr req)
    note nr = this
    show ?thesis
    proof (cases "httpClient c")
      case None
      with mb nr assms show ?thesis by (simp add: doRequest_def)
    next
      case (Some hc)
      note hc = this
      show ?thesis
      proof (cases "Do env hc (set_content_type body req)")
        case (Inl e3)
        with mb nr hc assms show ?thesis by (auto simp add: doRequest_def)
      next
        case (Inr resp)
        note dr = this
        obtain respBody rerr where ra: "ReadAll (resp_Body resp) = (respBody, rerr)"
          by (cases "ReadAll (resp_Body resp)")
        show ?thesis
        proof (cases rerr)
          case (Some e4)
          with mb nr hc dr ra assms show ?thesis by (auto simp add: doRequest_def)
        next
          case None
          with ra have ra': "ReadAll (resp_Body resp) = (respBody, None)" by simp
          have a: "doRequest env c ctx meth path body result
                = Return (classify env (set_content_type body req) (resp_StatusCode resp)
                             respBody result)"
            using mb nr hc dr ra' by (rule doRequest_reached_response)
          have b: "doRequest (env\<lparr>Unmarshal := u\<rparr>) c ctx meth path body result
                = Return (classify (env\<lparr>Unmarshal := u\<rparr>) (set_content_type body req)
                       (resp_StatusCode resp) respBody result)"
            using mb nr hc dr ra' by (rule doRequest_reached_response_Unmarshal_update)
          from a assms(1) have o: "out = classify env (set_content_type body req)
              (resp_StatusCode resp) respBody result" by simp
          with assms(2) classify_HTTPError [of env "set_content_type body req"
              "resp_StatusCode resp" respBody result e u]
          show ?thesis by (simp add: b)
        qed
      qed
    qed
  qed
qed

theorem doRequest_HTTPError_keeps_result_witness:
  "slot \<lparr>err = Some (HTTPErrorPtr \<lparr>StatusCode = 404, Message = ''Collection not found'',
                                   Timestamp = 1700000000\<rparr>),
         slot = Some ''before'',
         sent = [\<lparr>Ctx = Background, Method = ''GET'',
                  URL = ''http://localhost:8000/api/v2/collections/missing'',
                  ReqBody = None, Header = []\<rparr>]\<rparr> = Some ''before''
   \<and> go_bind (NewClient [])
        (\<lambda>c. doRequest (httptest_env 404 ''Collection not found'') c Background
                MethodGet ''/api/v2/collections/missing'' None (Some ''before''))
       = Return \<lparr>err = Some (HTTPErrorPtr \<lparr>StatusCode = 404,
                           Message = ''Collection not found'', Timestamp = 1700000000\<rparr>),
                 slot = Some ''before'',
                 sent = [\<lparr>Ctx = Background, Method = ''GET'',
                          URL = ''http://localhost:8000/api/v2/collections/missing'',
                          ReqBody = None, Header = []\<rparr>]\<rparr>"
  unfolding NewClient_Nil go_bind_Return
  using doRequest_HTTPError_keeps_result
     [where env = "httptest_env 404 ''Collection not found''"
      and c = "\<lparr>baseURL = ''http://localhost:8000'',
                httpClient = Some \<lparr>Transport = None, Timeout = 30 * Second\<rparr>,
                tenant = DefaultTenant, database = DefaultDatabase\<rparr>"
      and ctx = Background and meth = MethodGet and path = "''/api/v2/collections/missing''"
      and body = None and result = "Some ''before''"
      and out = "\<lparr>err = Some (HTTPErrorPtr \<lparr>StatusCode = 404,
                          Message = ''Collection not found'', Timestamp = 1700000000\<rparr>),
                slot = Some ''before'',
                sent = [\<lparr>Ctx = Background, Method = ''GET'',
                         URL = ''http://localhost:8000/api/v2/collections/missing'',
                         ReqBody = None, Header = []\<rparr>]\<rparr>"
      and e = "\<lparr>StatusCode = 404, Message = ''Collection not found'',
               Timestamp = 1700000000\<rparr>"]
  by (simp add: doRequest_def classify_def httptest_env_def marshal_body_def
        NewRequestWithContext_def set_content_type_def MethodGet_def)

subsection \<open>Auxiliary facts about options, suffixes and escaping\<close>

lemma HasSuffix_slash: "HasSuffix s ''/'' \<longleftrightarrow> s \<noteq> [] \<and> last s = CHR ''/''"
  by (cases s rule: rev_cases) (simp_all add: HasSuffix_def)

lemma TrimSuffix_slash: "TrimSuffix s ''/'' = (if HasSuffix s ''/'' then butlast s else s)"
  by (cases s rule: rev_cases) (simp_all add: TrimSuffix_def HasSuffix_def)

lemma HasSuffix_two_slashes:
  "HasSuffix s ''//'' \<longleftrightarrow> HasSuffix s ''/'' \<and> HasSuffix (butlast s) ''/''"
proof (cases s rule: rev_cases)
  case Nil
  then show ?thesis by (simp add: HasSuffix_def)
next
  case (snoc ys y)
  show ?thesis
  proof (cases ys rule: rev_cases)
    case Nil
    with snoc show ?thesis by (simp add: HasSuffix_def)
  next
    case (snoc zs z)
    with \<open>s = ys @ [y]\<close> have "s = zs @ [z, y]" by simp
    then have "butlast s = zs @ [z]" by (simp add: butlast_append)
    with \<open>s = zs @ [z, y]\<close> show ?thesis
      by (auto simp add: HasSuffix_slash) (simp_all add: HasSuffix_def)
  qed
qed

lemma TrimSuffix_no_trailing_slash:
  "\<not> HasSuffix u ''//'' \<Longrightarrow> \<not> HasSuffix (TrimSuffix u ''/'') ''/''"
  by (simp add: TrimSuffix_slash HasSuffix_two_slashes)

lemma applyOptions_append:
  "applyOptions c (xs @ ys) = go_bind (applyOptions c xs) (\<lambda>c'. applyOptions c' ys)"
proof (induction xs arbitrary: c)
  case Nil
  then show ?case by (simp add: go_bind_def)
next
  case (Cons x xs)
  then show ?case by (cases x) (simp_all add: go_bind_def)
qed


text \<open>Options that leave a field alone leave it alone together.\<close>

lemma applyOptions_keep:
  assumes "\<forall>opt \<in> set rest. \<forall>f. opt = Some f \<longrightarrow> (\<forall>c. g (f c) = g c)"
    and "applyOptions c rest = Return c'"
  shows "g c' = g c"
  using assms
proof (induction rest arbitrary: c)
  case Nil
  then show ?case by simp
next
  case (Cons x xs)
  show ?case
  proof (cases x)
    case None
    with Cons.prems(2) show ?thesis by simp
  next
    case (Some f)
    with Cons.prems(2) have r: "applyOptions (f c) xs = Return c'" by simp
    from Cons.prems(1) have k: "\<forall>opt \<in> set xs. \<forall>f. opt = Some f \<longrightarrow> (\<forall>c. g (f c) = g c)"
      by simp
    from Cons.prems(1) Some have "g (f c) = g c" by simp
    with Cons.IH [OF k r] show ?thesis by simp
  qed
qed

lemma applyOptions_after:
  assumes "applyOptions c (pre @ Some f # rest) = Return c'"
  shows "\<exists>c0. applyOptions c pre = Return c0 \<and> applyOptions (f c0) rest = Return c'"
  using assms by (cases "applyOptions c pre") (simp_all add: applyOptions_append go_bind_def)



lemma sent_URL:
  "doRequest env c ctx meth path body result = Return out \<Longrightarrow> req \<in> set (sent out)
     \<Longrightarrow> URL req = baseURL c @ path"
  by (auto simp add: doRequest_def classify_def NewRequestWithContext_def set_content_type_def
        Header_Set_def Let_def
      split: sum.splits option.splits prod.splits if_splits)

lemma upperhex_nth_not_slash: "k < 16 \<Longrightarrow> upperhex ! k \<noteq> CHR ''/''"
proof -
  assume "k < 16"
  then have "upperhex ! k \<in> set upperhex" by (intro nth_mem) (simp add: upperhex_def)
  then show ?thesis by (auto simp add: upperhex_def)
qed

lemma shouldEscape_slash: "shouldEscape (CHR ''/'')"
  by (simp add: shouldEscape_def)

lemma escape_byte_no_slash: "CHR ''/'' \<notin> set (escape_byte c)"
proof -
  have a: "(of_char c :: nat) div 16 < 16"
    using nat_of_char_less_256 [of c] by (intro less_mult_imp_div_less) simp
  have b: "(of_char c :: nat) mod 16 < 16" by simp
  show ?thesis
    using upperhex_nth_not_slash [OF a] upperhex_nth_not_slash [OF b] shouldEscape_slash
    by (auto simp add: escape_byte_def)
qed

lemma QueryEscape_no_slash: "CHR ''/'' \<notin> set (QueryEscape s)"
  by (induction s) (simp_all add: QueryEscape_def escape_byte_no_slash)

lemma escape_byte_nonempty: "escape_byte c \<noteq> []"
  by (simp add: escape_byte_def)

lemma QueryEscape_empty_iff: "QueryEscape s = [] \<longleftrightarrow> s = []"
  by (cases s) (simp_all add: QueryEscape_def escape_byte_nonempty)

lemma split_slash_no_slash: "CHR ''/'' \<notin> set a \<Longrightarrow> split_slash a = [a]"
  by (induction a) auto

lemma split_slash_append:
  "CHR ''/'' \<notin> set a \<Longrightarrow> split_slash (a @ CHR ''/'' # b) = a # split_slash b"
  by (induction a) auto

lemma split_scoped_path:
  assumes "CHR ''/'' \<notin> set a" and "CHR ''/'' \<notin> set b"
  shows "split_slash (''/api/v2/tenants/'' @ a @ ''/databases/'' @ b @ CHR ''/'' # rest)
           = [[], ''api'', ''v2'', ''tenants'', a, ''databases'', b] @ split_slash rest"
  using assms by (simp add: split_slash_append)

lemma take7_scoped_path:
  "take 7 (split_slash (''/api/v2/tenants/'' @ QueryEscape a @ ''/databases/'' @ QueryEscape b
                          @ CHR ''/'' # rest))
     = [[], ''api'', ''v2'', ''tenants'', QueryEscape a, ''databases'', QueryEscape b]"
  using split_scoped_path [OF QueryEscape_no_slash QueryEscape_no_slash, of a b rest]
  by simp

lemma doRequest_ignores_scope:
  "doRequest env (c\<lparr>tenant := t, database := d\<rparr>) ctx meth path body result
     = doRequest env c ctx meth path body result"
  by (simp add: doRequest_def cong: sum.case_cong option.case_cong)

subsection \<open>Construction\<close>




text \<open>
  Claim C6, as the code has it. \<open>WithBaseURL\<close> removes one trailing slash, if there is
  one: \<^verbatim>\<open>http://example.com/\<close> is stored as \<^verbatim>\<open>http://example.com\<close>, and the stored base
  address has no trailing slash whenever the address supplied does not end in two
  slashes. Every request that \<open>doRequest\<close> hands to the transport has the stored base
  address followed by the path as its URL.
\<close>

theorem WithBaseURL_strips_one_slash:
  "map_go baseURL (NewClient [WithBaseURL ''http://example.com/'']) = Return ''http://example.com''
   \<and> map_go baseURL (applyOptions c [WithBaseURL u])
       = Return (if HasSuffix u ''/'' then butlast u else u)
   \<and> ((\<forall>opt \<in> set rest. \<forall>f. opt = Some f \<longrightarrow> (\<forall>c. baseURL (f c) = baseURL c))
        \<and> \<not> HasSuffix u ''//''
        \<and> NewClient (pre @ WithBaseURL u # rest) = Return c'
      \<longrightarrow> \<not> HasSuffix (baseURL c') ''/'')
   \<and> (doRequest env c ctx meth path body result = Return out
        \<longrightarrow> (\<forall>req \<in> set (sent out). URL req = baseURL c @ path))"
proof -
  have 1: "map_go baseURL (NewClient [WithBaseURL ''http://example.com/''])
             = Return ''http://example.com''"
    by (simp add: NewClient_def WithBaseURL_def TrimSuffix_def HasSuffix_def)
  have 2: "map_go baseURL (applyOptions c [WithBaseURL u])
             = Return (if HasSuffix u ''/'' then butlast u else u)"
    by (simp add: WithBaseURL_def TrimSuffix_slash)
  have 3: "(\<forall>opt \<in> set rest. \<forall>f. opt = Some f \<longrightarrow> (\<forall>c. baseURL (f c) = baseURL c))
        \<and> \<not> HasSuffix u ''//''
        \<and> NewClient (pre @ WithBaseURL u # rest) = Return c'
      \<longrightarrow> \<not> HasSuffix (baseURL c') ''/''"
  proof (intro impI, elim conjE)
    assume k: "\<forall>opt \<in> set rest. \<forall>f. opt = Some f \<longrightarrow> (\<forall>c. baseURL (f c) = baseURL c)"
      and s: "\<not> HasSuffix u ''//''"
      and r: "NewClient (pre @ WithBaseURL u # rest) = Return c'"
    from r obtain c0 where
      "applyOptions ((\<lambda>c. c\<lparr>baseURL := TrimSuffix u ''/''\<rparr>) c0) rest = Return c'"
      unfolding NewClient_def WithBaseURL_def using applyOptions_after by blast
    with k have "baseURL c' = baseURL (c0\<lparr>baseURL := TrimSuffix u ''/''\<rparr>)"
      by (intro applyOptions_keep [where rest = rest]) simp_all
    with s show "\<not> HasSuffix (baseURL c') ''/''"
      by (simp add: TrimSuffix_no_trailing_slash)
  qed
  have 4: "doRequest env c ctx meth path body result = Return out
        \<longrightarrow> (\<forall>req \<in> set (sent out). URL req = baseURL c @ path)"
    using sent_URL by blast
  from 1 2 3 4 show ?thesis by blast
qed

theorem WithBaseURL_strips_one_slash_witness:
  "map_go (\<lambda>c. HasSuffix (baseURL c) ''/'')
      (NewClient [WithBaseURL ''http://example.com/'', WithTenant ''t'']) = Return False
   \<and> go_bind (NewClient [WithBaseURL ''http://example.com/''])
        (\<lambda>c. doRequest (httptest_env 200 version_json) c Background MethodGet
                ''/api/v2/version'' None (Some []))
       = Return \<lparr>err = None, slot = Some ''0.4.24'',
                 sent = [\<lparr>Ctx = Background, Method = ''GET'',
                          URL = ''http://example.com/api/v2/version'',
                          ReqBody = None, Header = []\<rparr>]\<rparr>"
proof -
  let ?c = "\<lparr>baseURL = ''http://example.com'',
             httpClient = Some \<lparr>Transport = None, Timeout = 30 * Second\<rparr>,
             tenant = ''t'', database = DefaultDatabase\<rparr>"
  have ne: "version_json \<noteq> []" by (simp add: version_json_def)
  have built: "NewClient [WithBaseURL ''http://example.com/'', WithTenant ''t''] = Return ?c"
    by (simp add: NewClient_def WithBaseURL_def WithTenant_def TrimSuffix_def HasSuffix_def)
  have run: "go_bind (NewClient [WithBaseURL ''http://example.com/''])
        (\<lambda>c. doRequest (httptest_env 200 version_json) c Background MethodGet
                ''/api/v2/version'' None (Some []))
       = Return \<lparr>err = None, slot = Some ''0.4.24'',
                 sent = [\<lparr>Ctx = Background, Method = ''GET'',
                          URL = ''http://example.com/api/v2/version'',
                          ReqBody = None, Header = []\<rparr>]\<rparr>"
    using ne
    by (simp add: go_bind_def doRequest_def classify_def httptest_env_def marshal_body_def
          NewRequestWithContext_def NewClient_def WithBaseURL_def TrimSuffix_def HasSuffix_def
          set_content_type_def MethodGet_def Unmarshal_string_version)
  have slash: "\<not> HasSuffix ''http://example.com/'' ''//''"
    by (simp add: HasSuffix_def)
  have kept: "\<not> HasSuffix (baseURL ?c) ''/''"
    using slash built
      WithBaseURL_strips_one_slash [where u = "''http://example.com/''" and pre = "[]"
        and rest = "[WithTenant ''t'']" and c' = ?c,
        THEN conjunct2, THEN conjunct2, THEN conjunct1]
    by (simp add: WithTenant_def)
  from kept built run show ?thesis by simp
qed

text \<open>
  The claim as written fails for an address that ends in two slashes: one of them stays.
\<close>

theorem WithBaseURL_two_slashes_keeps_one:
  "map_go (\<lambda>c. HasSuffix (baseURL c) ''/'') (NewClient [WithBaseURL ''http://example.com//''])
     = Return True"
  by (simp add: NewClient_def WithBaseURL_def TrimSuffix_def HasSuffix_def)

subsection \<open>Resource paths\<close>

text \<open>
  Claim C4, as the code has it. In \<open>ListCollections\<close>, \<open>CountCollections\<close>,
  \<open>CreateCollection\<close>, \<open>GetCollection\<close> and \<open>DeleteCollection\<close> the path is cut by its
  slashes into \<^verbatim>\<open>api\<close>, \<^verbatim>\<open>v2\<close>, \<^verbatim>\<open>tenants\<close>, the tenant segment, \<^verbatim>\<open>databases\<close>, the
  database segment and the rest; the tenant (database) segment is \<^verbatim>\<open>url.QueryEscape\<close> of
  the argument, or of the client's tenant (database) when the argument is empty, and it
  is not empty when the client's value is not empty. In \<open>CreateDatabase\<close> and
  \<open>GetDatabase\<close> the tenant is variadic: the client's tenant is used when none is passed,
  and a tenant that is passed is used as it is. The substitution is made where the path
  is built: \<open>doRequest\<close> does not read the tenant and the database of the client.
\<close>

theorem scope_defaults_in_paths:
  "take 7 (split_slash (ListCollections_path c t d))
     = [[], ''api'', ''v2'', ''tenants'', QueryEscape (if t = [] then tenant c else t),
        ''databases'', QueryEscape (if d = [] then database c else d)]
   \<and> take 7 (split_slash (CountCollections_path c t d))
     = [[], ''api'', ''v2'', ''tenants'', QueryEscape (if t = [] then tenant c else t),
        ''databases'', QueryEscape (if d = [] then database c else d)]
   \<and> take 7 (split_slash (CreateCollection_path c t d))
     = [[], ''api'', ''v2'', ''tenants'', QueryEscape (if t = [] then tenant c else t),
        ''databases'', QueryEscape (if d = [] then database c else d)]
   \<and> take 7 (split_slash (GetCollection_path c name t d))
     = [[], ''api'', ''v2'', ''tenants'', QueryEscape (if t = [] then tenant c else t),
        ''databases'', QueryEscape (if d = [] then database c else d)]
   \<and> take 7 (split_slash (DeleteCollection_path c name t d))
     = [[], ''api'', ''v2'', ''tenants'', QueryEscape (if t = [] then tenant c else t),
        ''databases'', QueryEscape (if d = [] then database c else d)]
   \<and> (tenant c \<noteq> [] \<longrightarrow> QueryEscape (tenant c) \<noteq> [])
   \<and> (database c \<noteq> [] \<longrightarrow> QueryEscape (database c) \<noteq> [])
   \<and> map_go (\<lambda>c. ListCollections_path c [] []) (NewClient [])
     = Return ''/api/v2/tenants/default_tenant/databases/default_database/collections''
   \<and> CreateDatabase_path c [] = ''/api/v2/tenants/'' @ QueryEscape (tenant c) @ ''/databases''
   \<and> CreateDatabase_path c (t # ts) = ''/api/v2/tenants/'' @ QueryEscape t @ ''/databases''
   \<and> GetDatabase_path c name []
     = ''/api/v2/tenants/'' @ QueryEscape (tenant c) @ ''/databases/'' @ name
   \<and> GetDatabase_path c name (t # ts)
     = ''/api/v2/tenants/'' @ QueryEscape t @ ''/databases/'' @ name
   \<and> doRequest env (c\<lparr>tenant := t', database := d'\<rparr>) ctx meth path body result
     = doRequest env c ctx meth path body result
   \<and> ListCollections env' c ctx [] [] = ListCollections env' c ctx (tenant c) (database c)"
proof -
  have 1: "take 7 (split_slash (ListCollections_path c t d))
     = [[], ''api'', ''v2'', ''tenants'', QueryEscape (if t = [] then tenant c else t),
        ''databases'', QueryEscape (if d = [] then database c else d)]"
    unfolding ListCollections_path_def Let_def by (rule take7_scoped_path)
  have 2: "take 7 (split_slash (CountCollections_path c t d))
     = [[], ''api'', ''v2'', ''tenants'', QueryEscape (if t = [] then tenant c else t),
        ''databases'', QueryEscape (if d = [] then database c else d)]"
    unfolding CountCollections_path_def Let_def by (rule take7_scoped_path)
  have 3: "take 7 (split_slash (CreateCollection_path c t d))
     = [[], ''api'', ''v2'', ''tenants'', QueryEscape (if t = [] then tenant c else t),
        ''databases'', QueryEscape (if d = [] then database c else d)]"
    unfolding CreateCollection_path_def Let_def by (rule take7_scoped_path)
  have 4: "take 7 (split_slash (GetCollection_path c name t d))
     = [[], ''api'', ''v2'', ''tenants'', QueryEscape (if t = [] then tenant c else t),
        ''databases'', QueryEscape (if d = [] then database c else d)]"
    using take7_scoped_path [of "if t = [] then tenant c else t"
        "if d = [] then database c else d" "''collections/'' @ name"]
    by (simp add: GetCollection_path_def)
  have 5: "take 7 (split_slash (DeleteCollection_path c name t d))
     = [[], ''api'', ''v2'', ''tenants'', QueryEscape (if t = [] then tenant c else t),
        ''databases'', QueryEscape (if d = [] then database c else d)]"
    using take7_scoped_path [of "if t = [] then tenant c else t"
        "if d = [] then database c else d" "''collections/'' @ name"]
    by (simp add: DeleteCollection_path_def)
  have 6: "tenant c \<noteq> [] \<longrightarrow> QueryEscape (tenant c) \<noteq> []"
    "database c \<noteq> [] \<longrightarrow> QueryEscape (database c) \<noteq> []"
    by (simp_all add: QueryEscape_empty_iff)
  have 7: "map_go (\<lambda>c. ListCollections_path c [] []) (NewClient [])
     = Return ''/api/v2/tenants/default_tenant/databases/default_database/collections''"
    by (simp add: ListCollections_path_def NewClient_def escape_defaults)
  have 8: "CreateDatabase_path c [] = ''/api/v2/tenants/'' @ QueryEscape (tenant c) @ ''/databases''"
    "CreateDatabase_path c (t # ts) = ''/api/v2/tenants/'' @ QueryEscape t @ ''/databases''"
    "GetDatabase_path c name []
     = ''/api/v2/tenants/'' @ QueryEscape (tenant c) @ ''/databases/'' @ name"
    "GetDatabase_path c name (t # ts)
     = ''/api/v2/tenants/'' @ QueryEscape t @ ''/databases/'' @ name"
    by (simp_all add: CreateDatabase_path_def GetDatabase_path_def)
  have 9: "ListCollections env' c ctx [] [] = ListCollections env' c ctx (tenant c) (database c)"
    by (simp add: ListCollections_def ListCollections_path_def)
  from 1 2 3 4 5 6 7 8 9 doRequest_ignores_scope show ?thesis by blast
qed

theorem scope_defaults_in_paths_witness:
  "map_go (\<lambda>c. QueryEscape (tenant c)) (NewClient []) = Return ''default_tenant''
   \<and> map_go (\<lambda>c. QueryEscape (database c)) (NewClient []) = Return ''default_database''
   \<and> map_go (\<lambda>c. take 7 (split_slash (GetCollection_path c ''test_collection'' [] [])))
        (NewClient [])
     = Return [[], ''api'', ''v2'', ''tenants'', ''default_tenant'', ''databases'',
               ''default_database'']"
proof -
  let ?c = "\<lparr>baseURL = ''http://localhost:8000'',
             httpClient = Some \<lparr>Transport = None, Timeout = 30 * Second\<rparr>,
             tenant = DefaultTenant, database = DefaultDatabase\<rparr>"
  note all = scope_defaults_in_paths [where c = ?c and t = "[]" and d = "[]"
      and name = "''test_collection''"]
  have t_ne: "tenant ?c \<noteq> []" by (simp add: DefaultTenant_def)
  have d_ne: "database ?c \<noteq> []" by (simp add: DefaultDatabase_def)
  have 1: "QueryEscape (tenant ?c) \<noteq> []"
    using t_ne all [THEN conjunct2, THEN conjunct2, THEN conjunct2, THEN conjunct2,
        THEN conjunct2, THEN conjunct1]
    by simp
  have 2: "QueryEscape (database ?c) \<noteq> []"
    using d_ne all [THEN conjunct2, THEN conjunct2, THEN conjunct2, THEN conjunct2,
        THEN conjunct2, THEN conjunct2, THEN conjunct1]
    by simp
  have 3: "take 7 (split_slash (GetCollection_path ?c ''test_collection'' [] []))
     = [[], ''api'', ''v2'', ''tenants'', ''default_tenant'', ''databases'',
        ''default_database'']"
    using all [THEN conjunct2, THEN conjunct2, THEN conjunct2, THEN conjunct1]
    by (simp add: escape_defaults)
  from 1 2 3 show ?thesis by (simp add: NewClient_Nil escape_defaults)
qed

text \<open>
  The claim as written fails in two places: \<open>CreateDatabase\<close> called with the empty string
  as its tenant, and a client whose configured tenant is the empty string. Both paths
  have an empty segment after \<^verbatim>\<open>tenants\<close>.
\<close>

theorem empty_tenant_segment_examples:
  "map_go (\<lambda>c. CreateDatabase_path c [[]]) (NewClient []) = Return ''/api/v2/tenants//databases''
   \<and> map_go (\<lambda>c. ListCollections_path c [] []) (NewClient [WithTenant []])
     = Return ''/api/v2/tenants//databases/default_database/collections''"
  by (simp add: CreateDatabase_path_def ListCollections_path_def NewClient_def WithTenant_def
       QueryEscape_def escape_byte_def shouldEscape_def DefaultTenant_def DefaultDatabase_def)

text \<open>
  Claim C3 does not hold of the code. The name of a tenant or a collection and the id of
  a collection are put into the path as they are: for the name \<^verbatim>\<open>a/b\<close> the path ends in
  \<^verbatim>\<open>/collections/a/b\<close>, which reads back as the two segments \<^verbatim>\<open>a\<close> and \<^verbatim>\<open>b\<close>. The tenant
  and the database are escaped with \<^verbatim>\<open>url.QueryEscape\<close>, which writes a space as \<^verbatim>\<open>+\<close>:
  the tenant \<^verbatim>\<open>my tenant\<close> reads back from the path as \<^verbatim>\<open>my+tenant\<close>.
\<close>

theorem unescaped_segments_examples:
  "GetCollection_path c name t d = GetCollection_path c [] t d @ name
   \<and> map (\<lambda>f. f ''a/b'')
         [GetTenant_path, UpdateCollection_path, Add_path, Update_path, Upsert_path, Get_path,
          Delete_path, Count_path, Query_path]
     = [''/api/v2/tenants/a/b'', ''/api/v2/collections/a/b'', ''/api/v2/collections/a/b/add'',
        ''/api/v2/collections/a/b/update'', ''/api/v2/collections/a/b/upsert'',
        ''/api/v2/collections/a/b/get'', ''/api/v2/collections/a/b/delete'',
        ''/api/v2/collections/a/b/count'', ''/api/v2/collections/a/b/query'']
   \<and> map_go (\<lambda>c. GetCollection_path c ''a/b'' [] []) (NewClient [])
     = Return ''/api/v2/tenants/default_tenant/databases/default_database/collections/a/b''
   \<and> map_go (\<lambda>c. path_segments (GetCollection_path c ''a/b'' [] [])) (NewClient [])
     = Return [Some [], Some ''api'', Some ''v2'', Some ''tenants'', Some ''default_tenant'',
        Some ''databases'', Some ''default_database'', Some ''collections'',
        Some ''a'', Some ''b'']
   \<and> map_go (\<lambda>c. ListCollections_path c ''my tenant'' []) (NewClient [])
     = Return ''/api/v2/tenants/my+tenant/databases/default_database/collections''
   \<and> map_go (\<lambda>c. path_segments (ListCollections_path c ''my tenant'' [])) (NewClient [])
     = Return [Some [], Some ''api'', Some ''v2'', Some ''tenants'', Some ''my+tenant'',
        Some ''databases'', Some ''default_database'', Some ''collections'']"
  by (simp add: GetCollection_path_def ListCollections_path_def NewClient_def
       DefaultTenant_def DefaultDatabase_def path_segments_def QueryEscape_def escape_byte_def
       shouldEscape_def GetTenant_path_def UpdateCollection_path_def Add_path_def
       Update_path_def Upsert_path_def Get_path_def Delete_path_def Count_path_def
       Query_path_def)

end
